theory Spec2Isabelle
  imports Complex_Main
begin

section \<open>Data model of the client (src/app/page.tsx, the version with the IndexedDB cache)\<close>

text \<open>
  \<^verbatim>\<open>type PageSize = 'a4' | 'letter' | 'custom'\<close>: a union of three string literals.
  \<open>pageSizeString\<close> is the string each value is at run time (what a template literal or
  \<^verbatim>\<open>JSON.stringify\<close> sees).
\<close>

datatype PageSize = a4 | letter | custom

fun pageSizeString :: "PageSize \<Rightarrow> string" where
  "pageSizeString a4 = ''a4''"
| "pageSizeString letter = ''letter''"
| "pageSizeString custom = ''custom''"

text \<open>A \<^verbatim>\<open>Blob\<close> is an immutable sequence of bytes.\<close>

type_synonym Blob = "nat list"

text \<open>
  The object literal \<^verbatim>\<open>cacheEntry\<close> built in \<^verbatim>\<open>savePdfToCache\<close>; the object store
  \<^verbatim>\<open>pdfs\<close> is created with \<^verbatim>\<open>keyPath: 'cacheKey'\<close>.
\<close>

record CacheEntry =
  cacheKey :: string
  url :: string
  pageSize :: PageSize
  blob :: Blob
  timestamp :: nat

text \<open>
  The calls the client makes to its collaborators, in the order it makes them:
  opening the database, the \<^verbatim>\<open>get\<close> and \<^verbatim>\<open>put\<close> requests on the object store, the
  request to \<^verbatim>\<open>/api/pdf\<close>, the download handed to the browser (the bytes and the file
  name of the link that is clicked), and \<^verbatim>\<open>console.error\<close> (label and error message).
\<close>

datatype Event =
    DbOpen
  | StoreGet string
  | StorePut CacheEntry
  | Fetch string PageSize
  | Download Blob string
  | ConsoleError string string

subsection \<open>generateCacheKey\<close>

text \<open>\<^verbatim>\<open>return `${url}|${pageSize}`;\<close>\<close>

definition generateCacheKey :: "string \<Rightarrow> PageSize \<Rightarrow> string" where
  "generateCacheKey u p = u @ ''|'' @ pageSizeString p"

subsection \<open>String methods used by the source\<close>

text \<open>
  JavaScript strings are sequences of UTF-16 code units; a \<open>char\<close> stands for one code
  unit. Every character test of the source is a test on ASCII characters.
\<close>

definition startsWith :: "string \<Rightarrow> string \<Rightarrow> bool" where
  "startsWith s pat = (take (length pat) s = pat)"

text \<open>
  \<^verbatim>\<open>s.replace(pat, rep)\<close> with a string pattern replaces the first occurrence of the
  pattern only, wherever it stands.
\<close>

fun replaceFirst :: "string \<Rightarrow> string \<Rightarrow> string \<Rightarrow> string" where
  "replaceFirst pat rep [] = (if pat = [] then rep else [])"
| "replaceFirst pat rep (c # cs) =
     (if startsWith (c # cs) pat then rep @ drop (length pat) (c # cs)
      else c # replaceFirst pat rep cs)"

text \<open>
  \<^verbatim>\<open>s.replace(/^X|X$/g, '')\<close> for a single character \<open>X\<close>: the global scan removes an
  \<open>X\<close> at index 0, and then an \<open>X\<close> at the last index when that index was not already
  consumed by the first match.
\<close>

definition stripEnds :: "char \<Rightarrow> string \<Rightarrow> string" where
  "stripEnds x s =
     (let s1 = (case s of [] \<Rightarrow> [] | c # cs \<Rightarrow> if c = x then cs else c # cs)
      in if s1 \<noteq> [] \<and> last s1 = x then butlast s1 else s1)"

text \<open>\<^verbatim>\<open>s.replace(/\//g, '-')\<close>\<close>

definition slashesToHyphens :: "string \<Rightarrow> string" where
  "slashesToHyphens s = map (\<lambda>c. if c = CHR ''/'' then CHR ''-'' else c) s"

text \<open>\<^verbatim>\<open>s.replace(/[^a-zA-Z0-9-]/g, '-')\<close>\<close>

definition alphanumerics :: string where
  "alphanumerics = ''abcdefghijklmnopqrstuvwxyzABCDEFGHIJKLMNOPQRSTUVWXYZ0123456789''"

definition isFilenameChar :: "char \<Rightarrow> bool" where
  "isFilenameChar c = (c \<in> set alphanumerics \<or> c = CHR ''-'')"

definition sanitize :: "string \<Rightarrow> string" where
  "sanitize s = map (\<lambda>c. if isFilenameChar c then c else CHR ''-'') s"

text \<open>\<^verbatim>\<open>s.replace(/-+/g, '-')\<close>: every maximal run of hyphens becomes one hyphen.\<close>

fun collapseHyphens :: "string \<Rightarrow> string" where
  "collapseHyphens (a # b # cs) =
     (if a = CHR ''-'' \<and> b = CHR ''-'' then collapseHyphens (b # cs)
      else a # collapseHyphens (b # cs))"
| "collapseHyphens cs = cs"


text \<open>\<^verbatim>\<open>s.toUpperCase()\<close> and \<^verbatim>\<open>s.toLowerCase()\<close> on ASCII letters.\<close>

definition lowerLetters :: string where
  "lowerLetters = ''abcdefghijklmnopqrstuvwxyz''"

definition upperLetters :: string where
  "upperLetters = ''ABCDEFGHIJKLMNOPQRSTUVWXYZ''"

definition toUpperCase :: "string \<Rightarrow> string" where
  "toUpperCase s =
     map (\<lambda>c. case map_of (zip lowerLetters upperLetters) c of Some d \<Rightarrow> d | None \<Rightarrow> c) s"

definition toLowerCase :: "string \<Rightarrow> string" where
  "toLowerCase s =
     map (\<lambda>c. case map_of (zip upperLetters lowerLetters) c of Some d \<Rightarrow> d | None \<Rightarrow> c) s"

subsection \<open>The platform's URL constructor\<close>

text \<open>
  \<^verbatim>\<open>new URL(url)\<close> belongs to the platform, not to the repository. The functions that call
  it take it as a parameter: \<open>Inl m\<close> stands for the \<^verbatim>\<open>TypeError\<close> of message \<open>m\<close> it
  throws, \<open>Inr\<close> for the object, of which the source reads \<^verbatim>\<open>hostname\<close> and
  \<^verbatim>\<open>pathname\<close>.
\<close>

record URL =
  hostname :: string
  pathname :: string

type_synonym URLConstructor = "string \<Rightarrow> string + URL"

text \<open>
  A constructor for running the functions on concrete strings. It accepts exactly the
  strings \<^verbatim>\<open>http://HOST\<close>, \<^verbatim>\<open>https://HOST\<close> and these followed by a path \<^verbatim>\<open>/...\<close>,
  where \<^verbatim>\<open>HOST\<close> is a non-empty string of ASCII letters and dots and the path is made of
  ASCII letters, digits, \<^verbatim>\<open>/\<close>, \<^verbatim>\<open>-\<close> and \<^verbatim>\<open>_\<close>. For these the platform lower-cases
  the host and keeps the path as it is (an absent path reads \<^verbatim>\<open>/\<close>). Every other string
  is answered with the error \<^verbatim>\<open>Invalid URL\<close>. That is what the platform does for a
  string without a scheme, such as \<^verbatim>\<open>not a url\<close> or \<^verbatim>\<open>not-a-url\<close>; of the other strings
  outside this shape the platform accepts some, and nothing below is evaluated on them.
  The general theorems hold for every constructor.
\<close>

definition isHostChar :: "char \<Rightarrow> bool" where
  "isHostChar c = (c \<in> set lowerLetters \<or> c \<in> set upperLetters \<or> c = CHR ''.'')"

definition isPathChar :: "char \<Rightarrow> bool" where
  "isPathChar c = (c \<in> set alphanumerics \<or> c = CHR ''/'' \<or> c = CHR ''-'' \<or> c = CHR ''_'')"

definition httpURL :: URLConstructor where
  "httpURL s =
     (let rest = (if startsWith s ''https://'' then Some (drop 8 s)
                  else if startsWith s ''http://'' then Some (drop 7 s)
                  else None)
      in case rest of
           None \<Rightarrow> Inl ''Invalid URL''
         | Some r \<Rightarrow>
             let host = takeWhile (\<lambda>c. c \<noteq> CHR ''/'') r;
                 path = dropWhile (\<lambda>c. c \<noteq> CHR ''/'') r
             in if host \<noteq> [] \<and> list_all isHostChar host \<and> list_all isPathChar path
                then Inr \<lparr>hostname = toLowerCase host,
                          pathname = (if path = [] then ''/'' else path)\<rparr>
                else Inl ''Invalid URL'')"

subsection \<open>generateFilenameFromUrl\<close>

text \<open>
  The \<^verbatim>\<open>try\<close> block can only throw in \<^verbatim>\<open>new URL(url)\<close>; the \<^verbatim>\<open>catch\<close> logs the
  error with \<^verbatim>\<open>console.error\<close> and returns \<^verbatim>\<open>'page'\<close>. The result is the returned
  string and the calls to \<^verbatim>\<open>console.error\<close>. \<^verbatim>\<open>pathname && pathname !== '/'\<close> is: not
  empty and not the single slash. \<^verbatim>\<open>filename || 'page'\<close> replaces the empty string.
\<close>

definition generateFilenameFromUrl :: "URLConstructor \<Rightarrow> string \<Rightarrow> string \<times> Event list" where
  "generateFilenameFromUrl newURL u =
     (case newURL u of
        Inl m \<Rightarrow> (''page'', [ConsoleError ''Error generating filename:'' m])
      | Inr urlObj \<Rightarrow>
          let host = replaceFirst ''www.'' [] (hostname urlObj);
              path = pathname urlObj;
              filename0 =
                (if path \<noteq> [] \<and> path \<noteq> ''/''
                 then host @ ''-'' @ slashesToHyphens (stripEnds (CHR ''/'') path)
                 else host);
              filename = take 100 (stripEnds (CHR ''-'') (collapseHyphens (sanitize filename0)))
          in (if filename = [] then ''page'' else filename, []))"


section \<open>The cache store (IndexedDB database pdfCache, object store pdfs)\<close>

text \<open>
  The object store holds records and is keyed by the records' \<^verbatim>\<open>cacheKey\<close> property.
  \<^verbatim>\<open>store.get(key)\<close> yields the record under the key or \<^verbatim>\<open>undefined\<close>;
  \<^verbatim>\<open>store.put(record)\<close> adds the record, replacing a record stored under the same key.
  \<^verbatim>\<open>onupgradeneeded\<close> creates the object store empty when the database is first opened, so
  a database that does not exist yet reads as the empty list.
\<close>

type_synonym Store = "CacheEntry list"

definition idb_get :: "Store \<Rightarrow> string \<Rightarrow> CacheEntry option" where
  "idb_get db k = find (\<lambda>e. cacheKey e = k) db"

definition idb_put :: "Store \<Rightarrow> CacheEntry \<Rightarrow> Store" where
  "idb_put db e = e # filter (\<lambda>x. cacheKey x \<noteq> cacheKey e) db"

section \<open>The environment of the client\<close>

text \<open>
  What \<^verbatim>\<open>fetch('/api/pdf', ...)\<close> can do: reject (a network failure) with an error of
  some message, or resolve to a response. Of a response the source reads \<^verbatim>\<open>ok\<close> (the
  status is in 200..299), \<^verbatim>\<open>json()\<close> when it is not ok and \<^verbatim>\<open>blob()\<close> when it is.
  \<open>jsonBody\<close> is what \<^verbatim>\<open>(await response.json()).error\<close> evaluates to: \<open>Inl m\<close> when the
  evaluation throws an error of message \<open>m\<close> (the body is not JSON, or it is \<^verbatim>\<open>null\<close>),
  \<open>Inr None\<close> when the property is absent, \<open>Inr (Some e)\<close> when it is the string \<open>e\<close>
  (the handler of this repository sends strings only).
  \<open>blobBody\<close> is what \<^verbatim>\<open>await response.blob()\<close> gives: the bytes, or \<open>Inl m\<close> when
  reading the body fails.
\<close>

record Response =
  status :: nat
  jsonBody :: "string + string option"
  blobBody :: "string + Blob"

definition ok :: "Response \<Rightarrow> bool" where
  "ok r = (200 \<le> status r \<and> status r \<le> 299)"

datatype FetchOutcome = Rejected string | Resolved Response

text \<open>
  The environment of one submission: whether \<^verbatim>\<open>indexedDB.open\<close> succeeds when the
  cache is read and when it is written, whether the \<^verbatim>\<open>get\<close> and \<^verbatim>\<open>put\<close> requests
  succeed, \<^verbatim>\<open>Date.now()\<close>, the behaviour of \<^verbatim>\<open>fetch\<close> and the URL constructor.
\<close>

record Env =
  readOpenOk :: bool
  getOk :: bool
  writeOpenOk :: bool
  putOk :: bool
  now :: nat
  fetch :: "string \<Rightarrow> PageSize \<Rightarrow> FetchOutcome"
  newURL :: URLConstructor

text \<open>The React state of the component, and the counter mirrored in \<^verbatim>\<open>localStorage\<close>.\<close>

datatype CacheStatus = hit | miss

record UiState =
  isLoading :: bool
  error :: "string option"
  cacheStatus :: "CacheStatus option"
  conversionCount :: nat
  localStorageCount :: "nat option"

section \<open>The cache functions of the client\<close>

text \<open>
  \<^verbatim>\<open>initializeDB\<close>: the promise resolves to the database, or rejects with
  \<^verbatim>\<open>new Error('Failed to open database')\<close>.
\<close>

definition initializeDB :: "bool \<Rightarrow> Store \<Rightarrow> string + Store" where
  "initializeDB opens db = (if opens then Inr db else Inl ''Failed to open database'')"

text \<open>
  \<^verbatim>\<open>savePdfToCache\<close>: every failure inside the \<^verbatim>\<open>try\<close> is caught and logged; the
  promise always resolves. The result is the store afterwards and the calls made.
\<close>

definition savePdfToCache :: "Env \<Rightarrow> Store \<Rightarrow> string \<Rightarrow> PageSize \<Rightarrow> Blob \<Rightarrow> Store \<times> Event list" where
  "savePdfToCache env db u p b =
     (case initializeDB (writeOpenOk env) db of
        Inl m \<Rightarrow> (db, [DbOpen, ConsoleError ''Error saving to cache:'' m])
      | Inr st \<Rightarrow>
          let cacheEntry = \<lparr>cacheKey = generateCacheKey u p, url = u, pageSize = p,
                            blob = b, timestamp = now env\<rparr>
          in if putOk env then (idb_put st cacheEntry, [DbOpen, StorePut cacheEntry])
             else (db, [DbOpen, StorePut cacheEntry,
                        ConsoleError ''Error saving to cache:'' ''Failed to save PDF to cache'']))"

text \<open>
  \<^verbatim>\<open>getPdfFromCache\<close>: \<^verbatim>\<open>result?.blob || null\<close> is the record's blob when a record
  was found (a \<^verbatim>\<open>Blob\<close> is an object, hence truthy, also when it is empty) and
  \<^verbatim>\<open>null\<close> otherwise; every failure is caught, logged and answered \<^verbatim>\<open>null\<close>.
\<close>

definition getPdfFromCache :: "Env \<Rightarrow> Store \<Rightarrow> string \<Rightarrow> PageSize \<Rightarrow> Blob option \<times> Event list" where
  "getPdfFromCache env db u p =
     (case initializeDB (readOpenOk env) db of
        Inl m \<Rightarrow> (None, [DbOpen, ConsoleError ''Error retrieving from cache:'' m])
      | Inr st \<Rightarrow>
          let key = generateCacheKey u p
          in if getOk env
             then (case idb_get st key of None \<Rightarrow> None | Some result \<Rightarrow> Some (blob result),
                   [DbOpen, StoreGet key])
             else (None, [DbOpen, StoreGet key,
                          ConsoleError ''Error retrieving from cache:'' ''Failed to get PDF from cache'']))"

section \<open>The conversion flow: handleSubmit\<close>

definition updateConversionCount :: "UiState \<Rightarrow> UiState" where
  "updateConversionCount s =
     s\<lparr>conversionCount := conversionCount s + 1,
       localStorageCount := Some (conversionCount s + 1)\<rparr>"

text \<open>
  \<^verbatim>\<open>handleDownload\<close>: the file name is derived (which may log), then the link is
  clicked.
\<close>

definition handleDownload :: "Env \<Rightarrow> Blob \<Rightarrow> string \<Rightarrow> Event list" where
  "handleDownload env b u =
     (case generateFilenameFromUrl (newURL env) u of
        (filename, logged) \<Rightarrow> logged @ [Download b (filename @ ''.pdf'')])"

text \<open>The \<^verbatim>\<open>catch\<close> and \<^verbatim>\<open>finally\<close> blocks of \<^verbatim>\<open>handleSubmit\<close> for a thrown error.\<close>

definition catchError :: "string \<Rightarrow> UiState \<Rightarrow> UiState" where
  "catchError m s = s\<lparr>error := Some m, isLoading := False\<rparr>"

record Outcome =
  uiAfter :: UiState
  storeAfter :: Store
  trace :: "Event list"

text \<open>
  \<^verbatim>\<open>handleSubmit\<close> for the state \<open>s\<close> of the component, the store \<open>db\<close> and the form's
  \<^verbatim>\<open>url\<close> and \<^verbatim>\<open>pageSize\<close>. \<^verbatim>\<open>if (!url) return;\<close> leaves everything as it is.
  \<^verbatim>\<open>errorData.error || 'Failed to generate PDF'\<close> takes the default for an absent and for
  an empty message.
\<close>

definition handleSubmit :: "Env \<Rightarrow> UiState \<Rightarrow> Store \<Rightarrow> string \<Rightarrow> PageSize \<Rightarrow> Outcome" where
  "handleSubmit env s db u p =
     (if u = [] then \<lparr>uiAfter = s, storeAfter = db, trace = []\<rparr>
      else
        let s1 = s\<lparr>isLoading := True, error := None, cacheStatus := None\<rparr>;
            (cachedPdf, t1) = getPdfFromCache env db u p
        in case cachedPdf of
             Some b \<Rightarrow>
               \<lparr>uiAfter = (updateConversionCount (s1\<lparr>cacheStatus := Some hit\<rparr>))\<lparr>isLoading := False\<rparr>,
                storeAfter = db,
                trace = t1 @ handleDownload env b u\<rparr>
           | None \<Rightarrow>
               (let s2 = s1\<lparr>cacheStatus := Some miss\<rparr>;
                    t2 = t1 @ [Fetch u p];
                    thrown = (\<lambda>m. \<lparr>uiAfter = catchError m s2, storeAfter = db, trace = t2\<rparr>)
                in (case fetch env u p of
                      Rejected m \<Rightarrow> thrown m
                    | Resolved response \<Rightarrow>
                        if \<not> ok response then
                          (case jsonBody response of
                             Inl m \<Rightarrow> thrown m
                           | Inr None \<Rightarrow> thrown ''Failed to generate PDF''
                           | Inr (Some e) \<Rightarrow>
                               thrown (if e \<noteq> [] then e else ''Failed to generate PDF''))
                        else
                          (case blobBody response of
                             Inl m \<Rightarrow> thrown m
                           | Inr b \<Rightarrow>
                               let (db', t3) = savePdfToCache env db u p b
                               in \<lparr>uiAfter = (updateConversionCount s2)\<lparr>isLoading := False\<rparr>,
                                   storeAfter = db',
                                   trace = t2 @ t3 @ handleDownload env b u\<rparr>))))"

text \<open>Selectors on traces used to state the properties.\<close>

fun isFetch :: "Event \<Rightarrow> bool" where
  "isFetch (Fetch u p) = True"
| "isFetch e = False"

fun isDownload :: "Event \<Rightarrow> bool" where
  "isDownload (Download b f) = True"
| "isDownload e = False"

fun isStorePut :: "Event \<Rightarrow> bool" where
  "isStorePut (StorePut e) = True"
| "isStorePut e = False"

section \<open>The server-side handler (route POST /api/pdf)\<close>

subsection \<open>The request body and requestSchema\<close>

text \<open>
  \<^verbatim>\<open>await request.json()\<close> throws on a body that is not JSON (\<open>Malformed\<close>); otherwise
  it is a JSON value that is an object with properties or is not (\<open>NonObject\<close>). Of a
  property's value the schema only asks whether it is a string.
\<close>

datatype JsonValue = JString string | JOther

datatype RequestBody = Malformed | NonObject | Object "(string \<times> JsonValue) list"

text \<open>
  The issues \<^verbatim>\<open>safeParse\<close> can report for \<^verbatim>\<open>requestSchema\<close>, in the order the
  object schema visits its parts: the \<^verbatim>\<open>url\<close> property, the \<^verbatim>\<open>pageSize\<close> property,
  then the keys the \<^verbatim>\<open>.strict()\<close> schema does not know.
\<close>

datatype Issue =
    ExpectedObject
  | UrlRequired
  | UrlNotString
  | UrlInvalid
  | PageSizeInvalid
  | UnrecognizedKeys "string list"

text \<open>\<^verbatim>\<open>z.enum(['a4', 'letter', 'custom'])\<close>\<close>

definition parsePageSize :: "string \<Rightarrow> PageSize option" where
  "parsePageSize s =
     (if s = ''a4'' then Some a4
      else if s = ''letter'' then Some letter
      else if s = ''custom'' then Some custom
      else None)"

text \<open>
  \<^verbatim>\<open>requestSchema.safeParse(body)\<close>. The test behind \<^verbatim>\<open>z.string().url()\<close> belongs to the
  validation library and is the parameter \<open>isUrl\<close>. \<^verbatim>\<open>.default('a4')\<close> applies to an
  absent \<^verbatim>\<open>pageSize\<close> only.
\<close>

definition requestSchema :: "(string \<Rightarrow> bool) \<Rightarrow> RequestBody \<Rightarrow> Issue list + (string \<times> PageSize)" where
  "requestSchema isUrl body =
     (case body of
        Object props \<Rightarrow>
          let urlField =
                (case map_of props ''url'' of
                   None \<Rightarrow> Inl UrlRequired
                 | Some JOther \<Rightarrow> Inl UrlNotString
                 | Some (JString v) \<Rightarrow> if isUrl v then Inr v else Inl UrlInvalid);
              pageSizeField =
                (case map_of props ''pageSize'' of
                   None \<Rightarrow> Inr a4
                 | Some JOther \<Rightarrow> Inl PageSizeInvalid
                 | Some (JString v) \<Rightarrow>
                     (case parsePageSize v of None \<Rightarrow> Inl PageSizeInvalid | Some p \<Rightarrow> Inr p));
              unknown = filter (\<lambda>k. k \<noteq> ''url'' \<and> k \<noteq> ''pageSize'') (map fst props);
              issues =
                (case urlField of Inl i \<Rightarrow> [i] | Inr v \<Rightarrow> []) @
                (case pageSizeField of Inl i \<Rightarrow> [i] | Inr p \<Rightarrow> []) @
                (if unknown = [] then [] else [UnrecognizedKeys unknown])
          in (case (urlField, pageSizeField, unknown) of
                (Inr v, Inr p, []) \<Rightarrow> Inr (v, p)
              | other \<Rightarrow> Inl issues)
      | other \<Rightarrow> Inl [ExpectedObject])"

subsection \<open>pageSizes and the calls to the remote browser\<close>

record PageDimensions =
  width :: real
  height :: real

fun pageSizes :: "PageSize \<Rightarrow> PageDimensions" where
  "pageSizes a4 = \<lparr>width = 8.27, height = 11.69\<rparr>"
| "pageSizes letter = \<lparr>width = 8.5, height = 11\<rparr>"
| "pageSizes custom = \<lparr>width = 8.27, height = 11.69\<rparr>"

text \<open>
  \<^verbatim>\<open>Math.round\<close> rounds to the nearest integer, a half upwards. The products are taken
  in exact arithmetic; the doubles the source computes are not on a rounding boundary.
\<close>

definition Math_round :: "real \<Rightarrow> int" where
  "Math_round x = \<lfloor>x + 1 / 2\<rfloor>"

text \<open>
  The calls the handler makes to the remote browser, with their arguments:
  \<^verbatim>\<open>puppeteer.connect\<close> (the endpoint), \<^verbatim>\<open>newPage\<close>, \<^verbatim>\<open>setViewport\<close> (width and
  height), \<^verbatim>\<open>goto\<close> (url and \<^verbatim>\<open>waitUntil\<close>), the \<^verbatim>\<open>evaluate\<close> that waits for the
  images, and \<^verbatim>\<open>createPDFStream\<close> (format, \<^verbatim>\<open>printBackground\<close>, and the top, right,
  bottom and left margins).
\<close>

datatype BrowserCall =
    Connect string
  | NewPage
  | SetViewport int int
  | Goto string string
  | WaitForImages
  | CreatePDFStream string bool string string string string

definition browserCalls :: "string \<Rightarrow> string \<Rightarrow> PageSize \<Rightarrow> BrowserCall list" where
  "browserCalls token u p =
     (let size = pageSizes p
      in [Connect (''wss://production-sfo.browserless.io?token='' @ token),
          NewPage,
          SetViewport (Math_round (width size * 96)) (Math_round (height size * 96)),
          Goto u ''domcontentloaded'',
          WaitForImages,
          CreatePDFStream (toUpperCase (pageSizeString p)) True
            ''20px'' ''20px'' ''20px'' ''20px''])"

text \<open>
  The calls are awaited one after the other; the first that throws ends the sequence.
  The result is the calls made and whether all of them returned.
\<close>

fun runBrowser :: "(BrowserCall \<Rightarrow> bool) \<Rightarrow> BrowserCall list \<Rightarrow> BrowserCall list \<times> bool" where
  "runBrowser throws [] = ([], True)"
| "runBrowser throws (c # cs) =
     (if throws c then ([c], False)
      else (case runBrowser throws cs of (made, completed) \<Rightarrow> (c # made, completed)))"

subsection \<open>POST\<close>

text \<open>
  The environment of the handler: the library's url test and the message it gives an
  issue, \<^verbatim>\<open>process.env.BROWSERLESS_TOKEN\<close>, which calls to the remote browser throw, and
  the bytes of the PDF stream the browser produces for the calls made.
\<close>

record ServerEnv =
  isUrl :: "string \<Rightarrow> bool"
  issueMessage :: "Issue \<Rightarrow> string"
  browserlessToken :: "string option"
  throws :: "BrowserCall \<Rightarrow> bool"
  pdfStream :: "BrowserCall list \<Rightarrow> Blob"

datatype Payload = ErrorJson string | PdfStream Blob

record HttpResponse =
  statusCode :: nat
  payload :: Payload

text \<open>
  The handler answers with a response; the second component is the list of calls it made
  to the remote browser. Everything thrown inside the \<^verbatim>\<open>try\<close> (by \<^verbatim>\<open>request.json()\<close>,
  by reading \<^verbatim>\<open>errors[0].message\<close> of an empty list, by a browser call) is answered by
  the \<^verbatim>\<open>catch\<close> block: status 500 and the fixed text. \<^verbatim>\<open>!browserlessToken\<close> holds for an
  unset and for an empty variable. A \<^verbatim>\<open>NextResponse\<close> built without a status has
  status 200. What the handler writes to the server's console is left out.
\<close>

definition POST :: "ServerEnv \<Rightarrow> RequestBody \<Rightarrow> HttpResponse \<times> BrowserCall list" where
  "POST env body =
     (let caught = \<lparr>statusCode = 500, payload = ErrorJson ''Failed to generate PDF''\<rparr>
      in case body of
           Malformed \<Rightarrow> (caught, [])
         | other \<Rightarrow>
             (case requestSchema (isUrl env) body of
                Inl [] \<Rightarrow> (caught, [])
              | Inl (i # rest) \<Rightarrow>
                  (\<lparr>statusCode = 400,
                    payload = ErrorJson (''Invalid request: '' @ issueMessage env i)\<rparr>, [])
              | Inr (u, p) \<Rightarrow>
                  (case browserlessToken env of
                     None \<Rightarrow>
                       (\<lparr>statusCode = 500,
                         payload = ErrorJson ''Server configuration error: Browserless token not found''\<rparr>, [])
                   | Some token \<Rightarrow>
                       if token = [] then
                         (\<lparr>statusCode = 500,
                           payload = ErrorJson ''Server configuration error: Browserless token not found''\<rparr>, [])
                       else
                         (case runBrowser (throws env) (browserCalls token u p) of
                            (made, completed) \<Rightarrow>
                              if completed
                              then (\<lparr>statusCode = 200, payload = PdfStream (pdfStream env made)\<rparr>, made)
                              else (caught, made)))))"

text \<open>The body the client sends: \<^verbatim>\<open>JSON.stringify({ url, pageSize })\<close>.\<close>

definition clientBody :: "string \<Rightarrow> PageSize \<Rightarrow> RequestBody" where
  "clientBody u p = Object [(''url'', JString u), (''pageSize'', JString (pageSizeString p))]"

section \<open>Sample environments\<close>

text \<open>
  Concrete environments on which the theorems are exercised: a response carrying a PDF of
  three bytes, responses of status 500 and 400 with an error message, and a client environment
  given by which store operations succeed and by what \<^verbatim>\<open>fetch\<close> answers.
\<close>

definition pdfResponse :: Response where
  "pdfResponse = \<lparr>status = 200, jsonBody = Inl ''Unexpected token'', blobBody = Inr [37, 80, 68]\<rparr>"

definition errorResponse :: Response where
  "errorResponse = \<lparr>status = 500, jsonBody = Inr (Some ''Failed to generate PDF''), blobBody = Inr []\<rparr>"

definition badRequestResponse :: Response where
  "badRequestResponse =
     \<lparr>status = 400, jsonBody = Inr (Some ''Invalid request: Invalid url''), blobBody = Inr []\<rparr>"

definition sampleEnv :: "bool \<Rightarrow> bool \<Rightarrow> Response \<Rightarrow> Env" where
  "sampleEnv readable writable r =
     \<lparr>readOpenOk = readable, getOk = readable, writeOpenOk = writable, putOk = writable,
      now = 1234, fetch = (\<lambda>u p. Resolved r), newURL = httpURL\<rparr>"

definition initialUi :: UiState where
  "initialUi = \<lparr>isLoading = False, error = None, cacheStatus = None, conversionCount = 0,
                localStorageCount = None\<rparr>"

definition sampleEntry :: CacheEntry where
  "sampleEntry = \<lparr>cacheKey = ''https://example.com|a4'', url = ''https://example.com'',
                  pageSize = a4, blob = [1, 2, 3], timestamp = 5\<rparr>"

definition sampleServer :: "string option \<Rightarrow> ServerEnv" where
  "sampleServer token =
     \<lparr>isUrl = (\<lambda>v. case httpURL v of Inl m \<Rightarrow> False | Inr parsed \<Rightarrow> True), issueMessage = (\<lambda>i. ''Invalid''),
      browserlessToken = token, throws = (\<lambda>c. False), pdfStream = (\<lambda>cs. [37, 80, 68])\<rparr>"

section \<open>Properties of the cache key\<close>

lemma pageSizeString_nonempty: "pageSizeString p \<noteq> []"
  by (cases p) simp_all

lemma generateCacheKey_last: "last (generateCacheKey u p) = last (pageSizeString p)"
  by (simp add: generateCacheKey_def pageSizeString_nonempty)

lemma generateCacheKey_inject:
  assumes "generateCacheKey u1 p1 = generateCacheKey u2 p2"
  shows "u1 = u2 \<and> p1 = p2"
proof -
  from assms have "last (pageSizeString p1) = last (pageSizeString p2)"
    by (metis generateCacheKey_last)
  then have p: "p1 = p2"
    by (cases p1; cases p2) simp_all
  with assms have "u1 @ (''|'' @ pageSizeString p2) = u2 @ (''|'' @ pageSizeString p2)"
    by (simp add: generateCacheKey_def)
  then have "u1 = u2"
    by (simp only: append_same_eq)
  with p show ?thesis by simp
qed

text \<open>
  C3. The cache key is a function of \<open>(url, pageSize)\<close> alone (the template literal reads
  nothing else, so equal arguments give the equal key), and it is injective: two keys are
  equal exactly when both the urls and the page sizes are equal. In particular different
  urls give different keys whatever the page sizes are, and for one url different page sizes
  give different keys. This holds for every string \<open>url\<close>, also one that contains the
  separator \<open>|\<close>, because no page size string contains it.
\<close>

theorem generateCacheKey_deterministic_injective:
  "(generateCacheKey u1 p1 = generateCacheKey u2 p2) = (u1 = u2 \<and> p1 = p2)"
  using generateCacheKey_inject by blast

section \<open>Facts about the store, the cache functions and the branches of handleSubmit\<close>

lemma idb_get_put_same: "idb_get (idb_put db e) (cacheKey e) = Some e"
  by (simp add: idb_get_def idb_put_def)

lemma idb_get_put_other: "k \<noteq> cacheKey e \<Longrightarrow> idb_get (idb_put db e) k = idb_get db k"
  by (induction db) (auto simp: idb_get_def idb_put_def)

lemma idb_put_one_per_key:
  "length (filter (\<lambda>x. cacheKey x = cacheKey e) (idb_put db e)) = 1"
proof -
  have "filter (\<lambda>x. cacheKey x = cacheKey e) (filter (\<lambda>x. cacheKey x \<noteq> cacheKey e) db) = []"
    by (induction db) auto
  then show ?thesis by (simp add: idb_put_def)
qed

lemma idb_put_distinct:
  assumes "distinct (map cacheKey db)"
  shows "distinct (map cacheKey (idb_put db e))"
proof -
  have "distinct (map cacheKey (filter (\<lambda>x. cacheKey x \<noteq> cacheKey e) db))"
    using assms by (rule distinct_map_filter)
  then show ?thesis by (auto simp: idb_put_def)
qed

lemma getPdfFromCache_hit:
  assumes "readOpenOk env" and "getOk env" and "idb_get db (generateCacheKey u p) = Some e"
  shows "getPdfFromCache env db u p = (Some (blob e), [DbOpen, StoreGet (generateCacheKey u p)])"
  using assms by (simp add: getPdfFromCache_def initializeDB_def Let_def)

lemma getPdfFromCache_absent:
  assumes "idb_get db (generateCacheKey u p) = None"
  shows "fst (getPdfFromCache env db u p) = None"
  using assms by (simp add: getPdfFromCache_def initializeDB_def Let_def)

lemma getPdfFromCache_read_failure:
  assumes "\<not> (readOpenOk env \<and> getOk env)"
  shows "fst (getPdfFromCache env db u p) = None"
  using assms by (auto simp: getPdfFromCache_def initializeDB_def Let_def)

lemma getPdfFromCache_trace:
  "filter isFetch (snd (getPdfFromCache env db u p)) = []
   \<and> filter isDownload (snd (getPdfFromCache env db u p)) = []
   \<and> filter isStorePut (snd (getPdfFromCache env db u p)) = []
   \<and> hd (snd (getPdfFromCache env db u p)) = DbOpen"
  by (simp add: getPdfFromCache_def initializeDB_def Let_def)

lemma getPdfFromCache_fetch_irrelevant:
  "getPdfFromCache (env\<lparr>fetch := f\<rparr>) db u p = getPdfFromCache env db u p"
  by (simp add: getPdfFromCache_def Let_def split: sum.splits)

lemma savePdfToCache_trace:
  "filter isFetch (snd (savePdfToCache env db u p b)) = []
   \<and> filter isDownload (snd (savePdfToCache env db u p b)) = []"
  by (simp add: savePdfToCache_def initializeDB_def Let_def)

lemma savePdfToCache_success:
  assumes "writeOpenOk env" and "putOk env"
  shows "savePdfToCache env db u p b =
     (idb_put db \<lparr>cacheKey = generateCacheKey u p, url = u, pageSize = p, blob = b, timestamp = now env\<rparr>,
      [DbOpen, StorePut \<lparr>cacheKey = generateCacheKey u p, url = u, pageSize = p, blob = b, timestamp = now env\<rparr>])"
  using assms by (simp add: savePdfToCache_def initializeDB_def Let_def)

lemma savePdfToCache_failure:
  assumes "\<not> (writeOpenOk env \<and> putOk env)"
  shows "fst (savePdfToCache env db u p b) = db
    \<and> (\<exists>m. last (snd (savePdfToCache env db u p b)) = ConsoleError ''Error saving to cache:'' m)"
  using assms by (auto simp: savePdfToCache_def initializeDB_def Let_def)

lemma handleDownload_events:
  "filter isDownload (handleDownload env b u) =
     [Download b (fst (generateFilenameFromUrl (newURL env) u) @ ''.pdf'')]
   \<and> last (handleDownload env b u) =
       Download b (fst (generateFilenameFromUrl (newURL env) u) @ ''.pdf'')
   \<and> filter isFetch (handleDownload env b u) = []
   \<and> filter isStorePut (handleDownload env b u) = []"
  by (simp add: handleDownload_def generateFilenameFromUrl_def Let_def split: sum.splits prod.splits)

lemma handleDownload_valid_url:
  assumes "newURL env u = Inr parsed"
  shows "handleDownload env b u = [Download b (fst (generateFilenameFromUrl (newURL env) u) @ ''.pdf'')]"
  using assms by (simp add: handleDownload_def generateFilenameFromUrl_def Let_def)

lemma handleSubmit_hit:
  assumes "u \<noteq> []" and "getPdfFromCache env db u p = (Some b, t1)"
  shows "handleSubmit env s db u p =
     \<lparr>uiAfter = (updateConversionCount (s\<lparr>isLoading := True, error := None, cacheStatus := Some hit\<rparr>))\<lparr>isLoading := False\<rparr>,
      storeAfter = db,
      trace = t1 @ handleDownload env b u\<rparr>"
  using assms by (simp add: handleSubmit_def)

lemma handleSubmit_empty_url:
  "handleSubmit env s db [] p = \<lparr>uiAfter = s, storeAfter = db, trace = []\<rparr>"
  by (simp add: handleSubmit_def)

lemma handleSubmit_not_ok:
  assumes "u \<noteq> []" and "getPdfFromCache env db u p = (None, t1)"
    and "fetch env u p = Resolved r" and "\<not> ok r"
  shows "handleSubmit env s db u p =
     \<lparr>uiAfter = catchError
         (case jsonBody r of
            Inl m \<Rightarrow> m
          | Inr None \<Rightarrow> ''Failed to generate PDF''
          | Inr (Some e) \<Rightarrow> if e \<noteq> [] then e else ''Failed to generate PDF'')
         (s\<lparr>isLoading := True, error := None, cacheStatus := Some miss\<rparr>),
      storeAfter = db,
      trace = t1 @ [Fetch u p]\<rparr>"
  using assms by (simp add: handleSubmit_def split: sum.splits option.splits)

lemma handleSubmit_rendered:
  assumes "u \<noteq> []" and "getPdfFromCache env db u p = (None, t1)"
    and "fetch env u p = Resolved r" and "ok r" and "blobBody r = Inr b"
  shows "handleSubmit env s db u p =
     \<lparr>uiAfter = (updateConversionCount (s\<lparr>isLoading := True, error := None, cacheStatus := Some miss\<rparr>))\<lparr>isLoading := False\<rparr>,
      storeAfter = fst (savePdfToCache env db u p b),
      trace = t1 @ [Fetch u p] @ snd (savePdfToCache env db u p b) @ handleDownload env b u\<rparr>"
  using assms by (simp add: handleSubmit_def split: prod.splits)

lemma handleSubmit_rejected:
  assumes "u \<noteq> []" and "getPdfFromCache env db u p = (None, t1)"
    and "fetch env u p = Rejected m"
  shows "handleSubmit env s db u p =
     \<lparr>uiAfter = catchError m (s\<lparr>isLoading := True, error := None, cacheStatus := Some miss\<rparr>),
      storeAfter = db,
      trace = t1 @ [Fetch u p]\<rparr>"
  using assms by (simp add: handleSubmit_def)

lemma handleSubmit_unreadable_body:
  assumes "u \<noteq> []" and "getPdfFromCache env db u p = (None, t1)"
    and "fetch env u p = Resolved r" and "ok r" and "blobBody r = Inl m"
  shows "handleSubmit env s db u p =
     \<lparr>uiAfter = catchError m (s\<lparr>isLoading := True, error := None, cacheStatus := Some miss\<rparr>),
      storeAfter = db,
      trace = t1 @ [Fetch u p]\<rparr>"
  using assms by (simp add: handleSubmit_def)


section \<open>The hit path\<close>

text \<open>
  C1. When the store holds an entry under the key of \<open>(url, pageSize)\<close> and the lookup
  finds it (the database opens and the \<^verbatim>\<open>get\<close> request succeeds: the hit path), the
  flow opens the database, reads the key, and hands the stored bytes to the download
  (\<^verbatim>\<open>handleDownload\<close>, which makes no other call than a \<^verbatim>\<open>console.error\<close> when no file
  name can be derived from the url; for a url the constructor accepts these are exactly
  three calls). The bytes downloaded are exactly the stored ones, no
  request to \<^verbatim>\<open>/api/pdf\<close> is in the trace, the outcome is the same whatever \<^verbatim>\<open>fetch\<close>
  would answer, no error is shown, the status is \<open>hit\<close> and the store is unchanged.
  \<^verbatim>\<open>handleSubmit\<close> returns at once for the empty url (\<^verbatim>\<open>if (!url) return;\<close>), so the
  flow proper runs for a non-empty url.
\<close>

theorem cache_hit_returns_stored_bytes_without_fetch:
  assumes "u \<noteq> []" and "readOpenOk env" and "getOk env"
    and "idb_get db (generateCacheKey u p) = Some e"
  shows "trace (handleSubmit env s db u p) =
           [DbOpen, StoreGet (generateCacheKey u p)] @ handleDownload env (blob e) u
       \<and> (newURL env u = Inr parsed \<longrightarrow>
             trace (handleSubmit env s db u p) =
               [DbOpen, StoreGet (generateCacheKey u p),
                Download (blob e) (fst (generateFilenameFromUrl (newURL env) u) @ ''.pdf'')])
       \<and> filter isDownload (trace (handleSubmit env s db u p)) =
           [Download (blob e) (fst (generateFilenameFromUrl (newURL env) u) @ ''.pdf'')]
       \<and> filter isFetch (trace (handleSubmit env s db u p)) = []
       \<and> handleSubmit (env\<lparr>fetch := f\<rparr>) s db u p = handleSubmit env s db u p
       \<and> error (uiAfter (handleSubmit env s db u p)) = None
       \<and> cacheStatus (uiAfter (handleSubmit env s db u p)) = Some hit
       \<and> storeAfter (handleSubmit env s db u p) = db"
proof -
  let ?t1 = "[DbOpen, StoreGet (generateCacheKey u p)]"
  have lookup: "getPdfFromCache env db u p = (Some (blob e), ?t1)"
    using assms(2-4) by (rule getPdfFromCache_hit)
  then have lookup': "getPdfFromCache (env\<lparr>fetch := f\<rparr>) db u p = (Some (blob e), ?t1)"
    by (simp add: getPdfFromCache_fetch_irrelevant)
  note run = handleSubmit_hit [OF assms(1) lookup, of s]
  note run' = handleSubmit_hit [OF assms(1) lookup', of s]
  have calls: "trace (handleSubmit env s db u p) = ?t1 @ handleDownload env (blob e) u"
    by (simp add: run)
  have three: "newURL env u = Inr parsed \<longrightarrow>
             trace (handleSubmit env s db u p) =
               [DbOpen, StoreGet (generateCacheKey u p),
                Download (blob e) (fst (generateFilenameFromUrl (newURL env) u) @ ''.pdf'')]"
    using handleDownload_valid_url [of env u parsed "blob e"] by (simp add: calls)
  have delivered: "filter isDownload (trace (handleSubmit env s db u p)) =
           [Download (blob e) (fst (generateFilenameFromUrl (newURL env) u) @ ''.pdf'')]"
    by (simp add: calls handleDownload_events)
  have quiet: "filter isFetch (trace (handleSubmit env s db u p)) = []"
    by (simp add: calls handleDownload_events)
  have same: "handleSubmit (env\<lparr>fetch := f\<rparr>) s db u p = handleSubmit env s db u p"
    by (simp add: run run' handleDownload_def)
  have shown: "error (uiAfter (handleSubmit env s db u p)) = None"
    by (simp add: run updateConversionCount_def)
  have flagged: "cacheStatus (uiAfter (handleSubmit env s db u p)) = Some hit"
    by (simp add: run updateConversionCount_def)
  have kept: "storeAfter (handleSubmit env s db u p) = db"
    by (simp add: run)
  from calls three delivered quiet same shown flagged kept show ?thesis by blast
qed

text \<open>The hit path on a store holding one entry.\<close>

theorem cache_hit_witness:
  "''https://example.com'' \<noteq> []
   \<and> readOpenOk (sampleEnv True True errorResponse) \<and> getOk (sampleEnv True True errorResponse)
   \<and> idb_get [sampleEntry] (generateCacheKey ''https://example.com'' a4) = Some sampleEntry
   \<and> newURL (sampleEnv True True errorResponse) ''https://example.com''
       = Inr \<lparr>hostname = ''example.com'', pathname = ''/''\<rparr>
   \<and> trace (handleSubmit (sampleEnv True True errorResponse) initialUi [sampleEntry] ''https://example.com'' a4)
       = [DbOpen, StoreGet ''https://example.com|a4'', Download [1, 2, 3] ''example-com.pdf'']
   \<and> error (uiAfter (handleSubmit (sampleEnv True True errorResponse) initialUi [sampleEntry] ''https://example.com'' a4)) = None"
proof -
  let ?env = "sampleEnv True True errorResponse"
  have h1: "''https://example.com'' \<noteq> []" by simp
  have h2: "readOpenOk ?env" by (simp add: sampleEnv_def)
  have h3: "getOk ?env" by (simp add: sampleEnv_def)
  have h4: "idb_get [sampleEntry] (generateCacheKey ''https://example.com'' a4) = Some sampleEntry"
    by (simp add: idb_get_def sampleEntry_def generateCacheKey_def)
  have ctor: "newURL ?env = httpURL" by (simp add: sampleEnv_def)
  have "httpURL ''https://example.com'' = Inr \<lparr>hostname = ''example.com'', pathname = ''/''\<rparr>"
    by code_simp
  then have h5: "newURL ?env ''https://example.com'' = Inr \<lparr>hostname = ''example.com'', pathname = ''/''\<rparr>"
    by (simp add: ctor)
  have name: "generateFilenameFromUrl httpURL ''https://example.com'' = (''example-com'', [])"
    by code_simp
  have key: "generateCacheKey ''https://example.com'' a4 = ''https://example.com|a4''"
    by (simp add: generateCacheKey_def)
  note main = cache_hit_returns_stored_bytes_without_fetch
    [OF h1 h2 h3 h4, where s = initialUi
       and parsed = "\<lparr>hostname = ''example.com'', pathname = ''/''\<rparr>"]
  from main h5 have "trace (handleSubmit ?env initialUi [sampleEntry] ''https://example.com'' a4)
       = [DbOpen, StoreGet (generateCacheKey ''https://example.com'' a4),
          Download (blob sampleEntry)
            (fst (generateFilenameFromUrl (newURL ?env) ''https://example.com'') @ ''.pdf'')]"
    by blast
  then have c1: "trace (handleSubmit ?env initialUi [sampleEntry] ''https://example.com'' a4)
       = [DbOpen, StoreGet ''https://example.com|a4'', Download [1, 2, 3] ''example-com.pdf'']"
    by (simp add: key ctor name sampleEntry_def)
  from main have c2: "error (uiAfter (handleSubmit ?env initialUi [sampleEntry] ''https://example.com'' a4)) = None"
    by blast
  from h1 h2 h3 h4 h5 c1 c2 show ?thesis by blast
qed

lemma getPdfFromCache_empty_store: "fst (getPdfFromCache env [] u p) = None"
  by (rule getPdfFromCache_absent) (simp add: idb_get_def)

lemma handleSubmit_miss_stores:
  assumes "u \<noteq> []" and "fst (getPdfFromCache env db u p) = None"
    and "fetch env u p = Resolved r" and "ok r" and "blobBody r = Inr b"
    and "writeOpenOk env" and "putOk env"
  shows "handleSubmit env s db u p =
     \<lparr>uiAfter = (updateConversionCount (s\<lparr>isLoading := True, error := None, cacheStatus := Some miss\<rparr>))\<lparr>isLoading := False\<rparr>,
      storeAfter = idb_put db \<lparr>cacheKey = generateCacheKey u p, url = u, pageSize = p, blob = b, timestamp = now env\<rparr>,
      trace = snd (getPdfFromCache env db u p) @
              [Fetch u p, DbOpen,
               StorePut \<lparr>cacheKey = generateCacheKey u p, url = u, pageSize = p, blob = b, timestamp = now env\<rparr>]
              @ handleDownload env b u\<rparr>"
proof -
  have lookup: "getPdfFromCache env db u p = (None, snd (getPdfFromCache env db u p))"
    using assms(2) by (simp add: prod_eq_iff)
  show ?thesis
    by (simp add: handleSubmit_rendered [OF assms(1) lookup assms(3-5)]
        savePdfToCache_success [OF assms(6,7)])
qed

section \<open>The miss path\<close>

text \<open>
  C4, as the code has it. A conversion can succeed while its cache write fails (the write is
  best effort), and then the store holds no entry afterwards: from the empty store, with a
  database that cannot be opened for writing, the PDF is downloaded, no error is shown, and
  the key is still absent.
\<close>

theorem successful_conversion_without_entry_counterexample:
  "error (uiAfter (handleSubmit (sampleEnv True False pdfResponse) initialUi [] ''https://example.com'' a4)) = None
   \<and> filter isDownload (trace (handleSubmit (sampleEnv True False pdfResponse) initialUi [] ''https://example.com'' a4))
       = [Download [37, 80, 68] ''example-com.pdf'']
   \<and> idb_get (storeAfter (handleSubmit (sampleEnv True False pdfResponse) initialUi [] ''https://example.com'' a4))
         (generateCacheKey ''https://example.com'' a4) = None"
proof -
  have u: "''https://example.com'' \<noteq> []" by simp
  have lookup: "getPdfFromCache (sampleEnv True False pdfResponse) [] ''https://example.com'' a4
      = (None, [DbOpen, StoreGet (generateCacheKey ''https://example.com'' a4)])"
    by (simp add: getPdfFromCache_def initializeDB_def sampleEnv_def idb_get_def Let_def)
  have f: "fetch (sampleEnv True False pdfResponse) ''https://example.com'' a4 = Resolved pdfResponse"
    by (simp add: sampleEnv_def)
  have okr: "ok pdfResponse" by (simp add: ok_def pdfResponse_def)
  have body: "blobBody pdfResponse = Inr [37, 80, 68]" by (simp add: pdfResponse_def)
  have save: "savePdfToCache (sampleEnv True False pdfResponse) [] ''https://example.com'' a4 [37, 80, 68]
      = ([], [DbOpen, ConsoleError ''Error saving to cache:'' ''Failed to open database''])"
    by (simp add: savePdfToCache_def initializeDB_def sampleEnv_def)
  have name: "generateFilenameFromUrl httpURL ''https://example.com'' = (''example-com'', [])"
    by code_simp
  have ctor: "newURL (sampleEnv True False pdfResponse) = httpURL"
    by (simp add: sampleEnv_def)
  note run = handleSubmit_rendered [OF u lookup f okr body, of initialUi]
  have "error (uiAfter (handleSubmit (sampleEnv True False pdfResponse) initialUi [] ''https://example.com'' a4)) = None"
    by (simp add: run updateConversionCount_def)
  moreover have "filter isDownload (trace (handleSubmit (sampleEnv True False pdfResponse) initialUi [] ''https://example.com'' a4))
       = [Download [37, 80, 68] ''example-com.pdf'']"
    by (simp add: run save handleDownload_events ctor name)
  moreover have "idb_get (storeAfter (handleSubmit (sampleEnv True False pdfResponse) initialUi [] ''https://example.com'' a4))
         (generateCacheKey ''https://example.com'' a4) = None"
    by (simp add: run save idb_get_def)
  ultimately show ?thesis by simp
qed

text \<open>
  C4, amended. Starting from the empty store, a conversion whose render succeeds and whose
  cache write does not fail leaves an entry under the key of \<open>(url, pageSize)\<close>: the store
  holds the entry with the rendered bytes, and a later lookup that can read the store
  returns these bytes. The calls are made in this order: the lookup, the request to
  \<^verbatim>\<open>/api/pdf\<close>, the \<^verbatim>\<open>put\<close>, and only then the download.
\<close>

theorem miss_populates_cache_when_write_succeeds:
  assumes "u \<noteq> []"
    and "fetch env u p = Resolved r" and "ok r" and "blobBody r = Inr b"
    and "writeOpenOk env" and "putOk env"
    and "readOpenOk env'" and "getOk env'"
  shows "idb_get (storeAfter (handleSubmit env s [] u p)) (generateCacheKey u p) =
           Some \<lparr>cacheKey = generateCacheKey u p, url = u, pageSize = p, blob = b, timestamp = now env\<rparr>
       \<and> fst (getPdfFromCache env' (storeAfter (handleSubmit env s [] u p)) u p) = Some b
       \<and> error (uiAfter (handleSubmit env s [] u p)) = None
       \<and> trace (handleSubmit env s [] u p) =
           snd (getPdfFromCache env [] u p) @
           [Fetch u p, DbOpen,
            StorePut \<lparr>cacheKey = generateCacheKey u p, url = u, pageSize = p, blob = b, timestamp = now env\<rparr>]
           @ handleDownload env b u
       \<and> filter isStorePut (handleDownload env b u) = []
       \<and> last (trace (handleSubmit env s [] u p)) =
           Download b (fst (generateFilenameFromUrl (newURL env) u) @ ''.pdf'')"
proof -
  let ?e = "\<lparr>cacheKey = generateCacheKey u p, url = u, pageSize = p, blob = b, timestamp = now env\<rparr>"
  note run = handleSubmit_miss_stores
    [OF assms(1) getPdfFromCache_empty_store assms(2-6), of s]
  have stored: "idb_get (storeAfter (handleSubmit env s [] u p)) (generateCacheKey u p) = Some ?e"
    using idb_get_put_same [of "[]" ?e] by (simp add: run)
  have "getPdfFromCache env' (storeAfter (handleSubmit env s [] u p)) u p
      = (Some (blob ?e), [DbOpen, StoreGet (generateCacheKey u p)])"
    using assms(7,8) stored by (rule getPdfFromCache_hit)
  then have again: "fst (getPdfFromCache env' (storeAfter (handleSubmit env s [] u p)) u p) = Some b"
    by simp
  have shown: "error (uiAfter (handleSubmit env s [] u p)) = None"
    by (simp add: run updateConversionCount_def)
  have order: "trace (handleSubmit env s [] u p) =
           snd (getPdfFromCache env [] u p) @ [Fetch u p, DbOpen, StorePut ?e] @ handleDownload env b u"
    by (simp add: run)
  have nonempty: "handleDownload env b u \<noteq> []"
    by (simp add: handleDownload_def split: prod.splits)
  have final: "last (trace (handleSubmit env s [] u p)) =
           Download b (fst (generateFilenameFromUrl (newURL env) u) @ ''.pdf'')"
    using nonempty by (simp add: order handleDownload_events)
  from stored again shown order final handleDownload_events [of env b u] show ?thesis by blast
qed

text \<open>A miss on the empty store with a working store and a rendered PDF.\<close>

theorem miss_populates_cache_witness:
  "''https://example.com'' \<noteq> []
   \<and> fetch (sampleEnv True True pdfResponse) ''https://example.com'' a4 = Resolved pdfResponse
   \<and> ok pdfResponse \<and> blobBody pdfResponse = Inr [37, 80, 68]
   \<and> writeOpenOk (sampleEnv True True pdfResponse) \<and> putOk (sampleEnv True True pdfResponse)
   \<and> readOpenOk (sampleEnv True True pdfResponse) \<and> getOk (sampleEnv True True pdfResponse)
   \<and> idb_get (storeAfter (handleSubmit (sampleEnv True True pdfResponse) initialUi [] ''https://example.com'' a4))
         (generateCacheKey ''https://example.com'' a4)
       = Some \<lparr>cacheKey = ''https://example.com|a4'', url = ''https://example.com'', pageSize = a4,
                blob = [37, 80, 68], timestamp = 1234\<rparr>
   \<and> fst (getPdfFromCache (sampleEnv True True pdfResponse)
           (storeAfter (handleSubmit (sampleEnv True True pdfResponse) initialUi [] ''https://example.com'' a4))
           ''https://example.com'' a4) = Some [37, 80, 68]"
proof -
  let ?env = "sampleEnv True True pdfResponse"
  have h1: "''https://example.com'' \<noteq> []" by simp
  have h2: "fetch ?env ''https://example.com'' a4 = Resolved pdfResponse" by (simp add: sampleEnv_def)
  have h3: "ok pdfResponse" by (simp add: ok_def pdfResponse_def)
  have h4: "blobBody pdfResponse = Inr [37, 80, 68]" by (simp add: pdfResponse_def)
  have h5: "writeOpenOk ?env" and h6: "putOk ?env" and h7: "readOpenOk ?env" and h8: "getOk ?env"
    by (simp_all add: sampleEnv_def)
  have key: "generateCacheKey ''https://example.com'' a4 = ''https://example.com|a4''"
    by (simp add: generateCacheKey_def)
  have clock: "now ?env = 1234" by (simp add: sampleEnv_def)
  from miss_populates_cache_when_write_succeeds [OF h1 h2 h3 h4 h5 h6 h7 h8, of initialUi]
  have "idb_get (storeAfter (handleSubmit ?env initialUi [] ''https://example.com'' a4))
         (generateCacheKey ''https://example.com'' a4)
       = Some \<lparr>cacheKey = ''https://example.com|a4'', url = ''https://example.com'', pageSize = a4,
                blob = [37, 80, 68], timestamp = 1234\<rparr>"
    and "fst (getPdfFromCache ?env (storeAfter (handleSubmit ?env initialUi [] ''https://example.com'' a4))
           ''https://example.com'' a4) = Some [37, 80, 68]"
    by (simp_all only: key clock)
  with h1 h2 h3 h4 h5 h6 h7 h8 show ?thesis by blast
qed

section \<open>The store: round trip and one entry per key\<close>

lemma savePdfToCache_distinct:
  assumes "distinct (map cacheKey db)"
  shows "distinct (map cacheKey (fst (savePdfToCache env db u p b)))"
proof (cases "writeOpenOk env \<and> putOk env")
  case True
  then show ?thesis
    using assms by (simp add: savePdfToCache_success idb_put_distinct)
next
  case False
  then show ?thesis
    using assms savePdfToCache_failure [of env db u p b] by simp
qed

text \<open>
  C5. A \<^verbatim>\<open>put\<close> of an entry followed by a \<^verbatim>\<open>get\<close> of its key returns that entry, whatever
  the store held before (an upsert). Through the functions of the client: after a
  \<^verbatim>\<open>savePdfToCache\<close> that does not fail, the store holds under the key of
  \<open>(url, pageSize)\<close> the entry with the saved blob and page size, \<^verbatim>\<open>getPdfFromCache\<close>
  returns the saved blob, exactly one entry of the store has that key, and the other keys
  read as before. Every \<^verbatim>\<open>savePdfToCache\<close>, failed or not, keeps the keys of the store
  pairwise different; the empty store of a new database has this property.
\<close>

theorem put_get_roundtrip_one_entry_per_key:
  "idb_get (idb_put db e) (cacheKey e) = Some e
   \<and> (writeOpenOk env \<and> putOk env \<longrightarrow>
        idb_get (fst (savePdfToCache env db u p b)) (generateCacheKey u p) =
          Some \<lparr>cacheKey = generateCacheKey u p, url = u, pageSize = p, blob = b, timestamp = now env\<rparr>
        \<and> length (filter (\<lambda>x. cacheKey x = generateCacheKey u p) (fst (savePdfToCache env db u p b))) = 1
        \<and> (k \<noteq> generateCacheKey u p \<longrightarrow> idb_get (fst (savePdfToCache env db u p b)) k = idb_get db k)
        \<and> (readOpenOk env' \<and> getOk env' \<longrightarrow>
              fst (getPdfFromCache env' (fst (savePdfToCache env db u p b)) u p) = Some b))
   \<and> (distinct (map cacheKey db) \<longrightarrow> distinct (map cacheKey (fst (savePdfToCache env db u p b))))
   \<and> distinct (map cacheKey ([] :: Store))"
proof -
  let ?e = "\<lparr>cacheKey = generateCacheKey u p, url = u, pageSize = p, blob = b, timestamp = now env\<rparr>"
  let ?db' = "fst (savePdfToCache env db u p b)"
  have upsert: "idb_get (idb_put db e) (cacheKey e) = Some e"
    by (rule idb_get_put_same)
  have saved: "idb_get ?db' (generateCacheKey u p) = Some ?e
        \<and> length (filter (\<lambda>x. cacheKey x = generateCacheKey u p) ?db') = 1
        \<and> (k \<noteq> generateCacheKey u p \<longrightarrow> idb_get ?db' k = idb_get db k)
        \<and> (readOpenOk env' \<and> getOk env' \<longrightarrow> fst (getPdfFromCache env' ?db' u p) = Some b)"
    if w: "writeOpenOk env \<and> putOk env"
  proof -
    have db': "?db' = idb_put db ?e"
      using w by (simp add: savePdfToCache_success)
    have g: "idb_get ?db' (generateCacheKey u p) = Some ?e"
      using idb_get_put_same [of db ?e] by (simp add: db')
    have one: "length (filter (\<lambda>x. cacheKey x = generateCacheKey u p) ?db') = 1"
      using idb_put_one_per_key [of ?e db] by (simp add: db')
    have other: "k \<noteq> generateCacheKey u p \<longrightarrow> idb_get ?db' k = idb_get db k"
      using idb_get_put_other [of k ?e db] by (simp add: db')
    have reread: "readOpenOk env' \<and> getOk env' \<longrightarrow> fst (getPdfFromCache env' ?db' u p) = Some b"
      using getPdfFromCache_hit [of env' ?db' u p ?e] g by simp
    from g one other reread show ?thesis by blast
  qed
  have inv: "distinct (map cacheKey db) \<longrightarrow> distinct (map cacheKey ?db')"
    by (simp add: savePdfToCache_distinct)
  from upsert saved inv show ?thesis by simp
qed

text \<open>Saving a second PDF for the key of an entry the store already holds.\<close>

theorem put_get_roundtrip_witness:
  "writeOpenOk (sampleEnv True True pdfResponse) \<and> putOk (sampleEnv True True pdfResponse)
   \<and> readOpenOk (sampleEnv True True pdfResponse) \<and> getOk (sampleEnv True True pdfResponse)
   \<and> ''other|a4'' \<noteq> generateCacheKey ''https://example.com'' a4
   \<and> distinct (map cacheKey [sampleEntry])
   \<and> fst (savePdfToCache (sampleEnv True True pdfResponse) [sampleEntry] ''https://example.com'' a4 [9, 9])
       = [\<lparr>cacheKey = ''https://example.com|a4'', url = ''https://example.com'', pageSize = a4,
            blob = [9, 9], timestamp = 1234\<rparr>]
   \<and> fst (getPdfFromCache (sampleEnv True True pdfResponse)
           (fst (savePdfToCache (sampleEnv True True pdfResponse) [sampleEntry] ''https://example.com'' a4 [9, 9]))
           ''https://example.com'' a4) = Some [9, 9]
   \<and> distinct (map cacheKey
         (fst (savePdfToCache (sampleEnv True True pdfResponse) [sampleEntry] ''https://example.com'' a4 [9, 9])))"
proof -
  let ?env = "sampleEnv True True pdfResponse"
  have w: "writeOpenOk ?env \<and> putOk ?env" and r: "readOpenOk ?env \<and> getOk ?env"
    by (simp_all add: sampleEnv_def)
  have k: "''other|a4'' \<noteq> generateCacheKey ''https://example.com'' a4"
    by (simp add: generateCacheKey_def)
  have d: "distinct (map cacheKey [sampleEntry])" by simp
  have concrete: "fst (savePdfToCache ?env [sampleEntry] ''https://example.com'' a4 [9, 9])
       = [\<lparr>cacheKey = ''https://example.com|a4'', url = ''https://example.com'', pageSize = a4,
            blob = [9, 9], timestamp = 1234\<rparr>]"
    by (simp add: savePdfToCache_def initializeDB_def sampleEnv_def idb_put_def sampleEntry_def
        generateCacheKey_def Let_def)
  from put_get_roundtrip_one_entry_per_key
    [of "[sampleEntry]" sampleEntry ?env "''https://example.com''" a4 "[9, 9]" "''other|a4''" ?env]
    w r k d
  have "fst (getPdfFromCache ?env (fst (savePdfToCache ?env [sampleEntry] ''https://example.com'' a4 [9, 9]))
           ''https://example.com'' a4) = Some [9, 9]"
    and "distinct (map cacheKey (fst (savePdfToCache ?env [sampleEntry] ''https://example.com'' a4 [9, 9])))"
    by blast+
  with w r k d concrete show ?thesis by blast
qed

section \<open>Failures of the store do not fail the conversion\<close>

lemma savePdfToCache_failure_logs:
  assumes "\<not> (writeOpenOk env \<and> putOk env)"
  shows "\<exists>m. ConsoleError ''Error saving to cache:'' m \<in> set (snd (savePdfToCache env db u p b))"
  using assms by (auto simp: savePdfToCache_def initializeDB_def Let_def)

lemma getPdfFromCache_failure_logs:
  assumes "\<not> (readOpenOk env \<and> getOk env)"
  shows "\<exists>m. ConsoleError ''Error retrieving from cache:'' m \<in> set (snd (getPdfFromCache env db u p))"
  using assms by (auto simp: getPdfFromCache_def initializeDB_def Let_def)

lemma lookup_pair:
  assumes "fst (getPdfFromCache env db u p) = None"
  shows "getPdfFromCache env db u p = (None, snd (getPdfFromCache env db u p))"
  using assms by (simp add: prod_eq_iff)

text \<open>
  C6. When the lookup gives nothing, the request to \<^verbatim>\<open>/api/pdf\<close> succeeds and the bytes
  are read, a failing cache write (the database does not open, or the \<^verbatim>\<open>put\<close> request
  fails) does not fail the conversion: the failure is logged with \<^verbatim>\<open>console.error\<close>, no
  error is shown, the freshly rendered bytes are what is downloaded, the download is the
  last call, the conversion is counted, and the store stays as it was.
\<close>

theorem cache_write_failure_is_swallowed:
  assumes "u \<noteq> []" and "fst (getPdfFromCache env db u p) = None"
    and "fetch env u p = Resolved r" and "ok r" and "blobBody r = Inr b"
    and "\<not> (writeOpenOk env \<and> putOk env)"
  shows "error (uiAfter (handleSubmit env s db u p)) = None
       \<and> filter isDownload (trace (handleSubmit env s db u p)) =
           [Download b (fst (generateFilenameFromUrl (newURL env) u) @ ''.pdf'')]
       \<and> last (trace (handleSubmit env s db u p)) =
           Download b (fst (generateFilenameFromUrl (newURL env) u) @ ''.pdf'')
       \<and> (\<exists>m. ConsoleError ''Error saving to cache:'' m \<in> set (trace (handleSubmit env s db u p)))
       \<and> conversionCount (uiAfter (handleSubmit env s db u p)) = conversionCount s + 1
       \<and> storeAfter (handleSubmit env s db u p) = db"
proof -
  note run = handleSubmit_rendered [OF assms(1) lookup_pair [OF assms(2)] assms(3-5), of s]
  have shown: "error (uiAfter (handleSubmit env s db u p)) = None"
    by (simp add: run updateConversionCount_def)
  have delivered: "filter isDownload (trace (handleSubmit env s db u p)) =
           [Download b (fst (generateFilenameFromUrl (newURL env) u) @ ''.pdf'')]"
    by (simp add: run getPdfFromCache_trace savePdfToCache_trace handleDownload_events)
  have "handleDownload env b u \<noteq> []"
    by (simp add: handleDownload_def split: prod.splits)
  then have final: "last (trace (handleSubmit env s db u p)) =
           Download b (fst (generateFilenameFromUrl (newURL env) u) @ ''.pdf'')"
    by (simp add: run handleDownload_events)
  have logged: "\<exists>m. ConsoleError ''Error saving to cache:'' m \<in> set (trace (handleSubmit env s db u p))"
    using savePdfToCache_failure_logs [OF assms(6), of db u p b] by (auto simp: run)
  have counted: "conversionCount (uiAfter (handleSubmit env s db u p)) = conversionCount s + 1"
    by (simp add: run updateConversionCount_def)
  have kept: "storeAfter (handleSubmit env s db u p) = db"
    using savePdfToCache_failure [OF assms(6), of db u p b] by (simp add: run)
  from shown delivered final logged counted kept show ?thesis by blast
qed

text \<open>A rendered PDF with a database that cannot be written.\<close>

theorem cache_write_failure_witness:
  "''https://example.com'' \<noteq> []
   \<and> fst (getPdfFromCache (sampleEnv True False pdfResponse) [] ''https://example.com'' a4) = None
   \<and> fetch (sampleEnv True False pdfResponse) ''https://example.com'' a4 = Resolved pdfResponse
   \<and> ok pdfResponse \<and> blobBody pdfResponse = Inr [37, 80, 68]
   \<and> \<not> (writeOpenOk (sampleEnv True False pdfResponse) \<and> putOk (sampleEnv True False pdfResponse))
   \<and> error (uiAfter (handleSubmit (sampleEnv True False pdfResponse) initialUi [] ''https://example.com'' a4)) = None
   \<and> last (trace (handleSubmit (sampleEnv True False pdfResponse) initialUi [] ''https://example.com'' a4))
       = Download [37, 80, 68] ''example-com.pdf''
   \<and> storeAfter (handleSubmit (sampleEnv True False pdfResponse) initialUi [] ''https://example.com'' a4) = []"
proof -
  let ?env = "sampleEnv True False pdfResponse"
  have h1: "''https://example.com'' \<noteq> []" by simp
  have h2: "fst (getPdfFromCache ?env [] ''https://example.com'' a4) = None"
    by (rule getPdfFromCache_empty_store)
  have h3: "fetch ?env ''https://example.com'' a4 = Resolved pdfResponse" by (simp add: sampleEnv_def)
  have h4: "ok pdfResponse" by (simp add: ok_def pdfResponse_def)
  have h5: "blobBody pdfResponse = Inr [37, 80, 68]" by (simp add: pdfResponse_def)
  have h6: "\<not> (writeOpenOk ?env \<and> putOk ?env)" by (simp add: sampleEnv_def)
  have ctor: "newURL ?env = httpURL" by (simp add: sampleEnv_def)
  have name: "generateFilenameFromUrl httpURL ''https://example.com'' = (''example-com'', [])"
    by code_simp
  from cache_write_failure_is_swallowed [OF h1 h2 h3 h4 h5 h6, of initialUi]
  have "error (uiAfter (handleSubmit ?env initialUi [] ''https://example.com'' a4)) = None"
    and "last (trace (handleSubmit ?env initialUi [] ''https://example.com'' a4))
       = Download [37, 80, 68] ''example-com.pdf''"
    and "storeAfter (handleSubmit ?env initialUi [] ''https://example.com'' a4) = []"
    by (simp_all add: ctor name)
  with h1 h2 h3 h4 h5 h6 show ?thesis by blast
qed

lemma handleSubmit_miss_general:
  assumes "u \<noteq> []" and "fst (getPdfFromCache env db u p) = None"
  shows "cacheStatus (uiAfter (handleSubmit env s db u p)) = Some miss
       \<and> filter isFetch (trace (handleSubmit env s db u p)) = [Fetch u p]
       \<and> take (Suc (length (snd (getPdfFromCache env db u p)))) (trace (handleSubmit env s db u p))
           = snd (getPdfFromCache env db u p) @ [Fetch u p]"
proof -
  note lookup = lookup_pair [OF assms(2)]
  show ?thesis
  proof (cases "fetch env u p")
    case (Rejected m)
    show ?thesis
      by (simp add: handleSubmit_rejected [OF assms(1) lookup Rejected] catchError_def
          getPdfFromCache_trace)
  next
    case (Resolved r)
    show ?thesis
    proof (cases "ok r")
      case False
      show ?thesis
        by (simp add: handleSubmit_not_ok [OF assms(1) lookup Resolved False] catchError_def
            getPdfFromCache_trace)
    next
      case True
      show ?thesis
      proof (cases "blobBody r")
        case (Inl m)
        show ?thesis
          by (simp add: handleSubmit_unreadable_body [OF assms(1) lookup Resolved True Inl]
              catchError_def getPdfFromCache_trace)
      next
        case (Inr b)
        show ?thesis
          by (simp add: handleSubmit_rendered [OF assms(1) lookup Resolved True Inr]
              updateConversionCount_def getPdfFromCache_trace savePdfToCache_trace
              handleDownload_events)
      qed
    qed
  qed
qed

lemma handleSubmit_miss_ignores_store:
  assumes "u \<noteq> []"
    and "fst (getPdfFromCache env db u p) = None"
    and "fst (getPdfFromCache env' db' u p) = None"
    and "fetch env' = fetch env" and "newURL env' = newURL env"
    and "writeOpenOk env' = writeOpenOk env" and "putOk env' = putOk env" and "now env' = now env"
  shows "uiAfter (handleSubmit env s db u p) = uiAfter (handleSubmit env' s db' u p)
       \<and> drop (length (snd (getPdfFromCache env db u p))) (trace (handleSubmit env s db u p))
           = drop (length (snd (getPdfFromCache env' db' u p))) (trace (handleSubmit env' s db' u p))"
proof -
  note lookup = lookup_pair [OF assms(2)]
  note lookup' = lookup_pair [OF assms(3)]
  have same_fetch: "fetch env' u p = fetch env u p"
    by (simp add: assms(4))
  have save_trace: "snd (savePdfToCache env' db' u p b) = snd (savePdfToCache env db u p b)" for b
    by (simp add: savePdfToCache_def initializeDB_def Let_def assms(6-8))
  show ?thesis
  proof (cases "fetch env u p")
    case (Rejected m)
    from Rejected same_fetch have Rejected': "fetch env' u p = Rejected m" by simp
    show ?thesis
      by (simp add: handleSubmit_rejected [OF assms(1) lookup Rejected]
          handleSubmit_rejected [OF assms(1) lookup' Rejected'])
  next
    case (Resolved r)
    from Resolved same_fetch have Resolved': "fetch env' u p = Resolved r" by simp
    show ?thesis
    proof (cases "ok r")
      case False
      show ?thesis
        by (simp add: handleSubmit_not_ok [OF assms(1) lookup Resolved False]
            handleSubmit_not_ok [OF assms(1) lookup' Resolved' False])
    next
      case True
      show ?thesis
      proof (cases "blobBody r")
        case (Inl m)
        show ?thesis
          by (simp add: handleSubmit_unreadable_body [OF assms(1) lookup Resolved True Inl]
              handleSubmit_unreadable_body [OF assms(1) lookup' Resolved' True Inl])
      next
        case (Inr b)
        show ?thesis
          by (simp add: handleSubmit_rendered [OF assms(1) lookup Resolved True Inr]
              handleSubmit_rendered [OF assms(1) lookup' Resolved' True Inr]
              save_trace handleDownload_def assms(5))
      qed
    qed
  qed
qed

text \<open>
  C7. When the store cannot be read (the database does not open, or the \<^verbatim>\<open>get\<close> request
  fails), whatever the store holds, the flow goes on as on a miss: the failure is logged
  with \<^verbatim>\<open>console.error\<close>, the status is \<open>miss\<close>, the request to \<^verbatim>\<open>/api/pdf\<close> is made,
  and from the request on the calls and the resulting state of the component are those of
  a true miss (the same submission against an empty store that can be read). So the store
  error is never what the user is shown: with a rendered PDF no error is shown at all and
  the PDF is downloaded.
\<close>

theorem store_read_failure_proceeds_as_miss:
  assumes "u \<noteq> []" and "\<not> (readOpenOk env \<and> getOk env)"
  shows "filter isFetch (trace (handleSubmit env s db u p)) = [Fetch u p]
       \<and> cacheStatus (uiAfter (handleSubmit env s db u p)) = Some miss
       \<and> (\<exists>m. ConsoleError ''Error retrieving from cache:'' m \<in> set (trace (handleSubmit env s db u p)))
       \<and> uiAfter (handleSubmit env s db u p) =
           uiAfter (handleSubmit (env\<lparr>readOpenOk := True, getOk := True\<rparr>) s [] u p)
       \<and> drop (length (snd (getPdfFromCache env db u p))) (trace (handleSubmit env s db u p)) =
           drop 2 (trace (handleSubmit (env\<lparr>readOpenOk := True, getOk := True\<rparr>) s [] u p))
       \<and> (fetch env u p = Resolved r \<and> ok r \<and> blobBody r = Inr b \<longrightarrow>
             error (uiAfter (handleSubmit env s db u p)) = None
           \<and> last (trace (handleSubmit env s db u p)) =
               Download b (fst (generateFilenameFromUrl (newURL env) u) @ ''.pdf''))"
proof -
  let ?env' = "env\<lparr>readOpenOk := True, getOk := True\<rparr>"
  have failed: "fst (getPdfFromCache env db u p) = None"
    using assms(2) by (rule getPdfFromCache_read_failure)
  have absent: "fst (getPdfFromCache ?env' [] u p) = None"
    by (rule getPdfFromCache_empty_store)
  have two: "length (snd (getPdfFromCache ?env' [] u p)) = 2"
    by (simp add: getPdfFromCache_def initializeDB_def Let_def)
  note general = handleSubmit_miss_general [OF assms(1) failed, of s]
  have logged: "\<exists>m. ConsoleError ''Error retrieving from cache:'' m \<in> set (trace (handleSubmit env s db u p))"
  proof -
    from getPdfFromCache_failure_logs [OF assms(2), of db u p]
    obtain m where m: "ConsoleError ''Error retrieving from cache:'' m \<in> set (snd (getPdfFromCache env db u p))"
      by blast
    from general have "set (snd (getPdfFromCache env db u p)) \<subseteq> set (trace (handleSubmit env s db u p))"
      by (metis set_take_subset set_append le_sup_iff)
    with m show ?thesis by blast
  qed
  have same: "uiAfter (handleSubmit env s db u p) = uiAfter (handleSubmit ?env' s [] u p)
       \<and> drop (length (snd (getPdfFromCache env db u p))) (trace (handleSubmit env s db u p))
           = drop (length (snd (getPdfFromCache ?env' [] u p))) (trace (handleSubmit ?env' s [] u p))"
    by (rule handleSubmit_miss_ignores_store [OF assms(1) failed absent]) simp_all
  have rendered: "error (uiAfter (handleSubmit env s db u p)) = None
           \<and> last (trace (handleSubmit env s db u p)) =
               Download b (fst (generateFilenameFromUrl (newURL env) u) @ ''.pdf'')"
    if "fetch env u p = Resolved r \<and> ok r \<and> blobBody r = Inr b"
  proof -
    from that have f: "fetch env u p = Resolved r" and o: "ok r" and bb: "blobBody r = Inr b"
      by simp_all
    have "handleDownload env b u \<noteq> []"
      by (simp add: handleDownload_def split: prod.splits)
    then show ?thesis
      by (simp add: handleSubmit_rendered [OF assms(1) lookup_pair [OF failed] f o bb]
          updateConversionCount_def handleDownload_events)
  qed
  from general logged same rendered show ?thesis
    by (simp add: two)
qed

text \<open>A store that holds the entry but cannot be opened for reading.\<close>

theorem store_read_failure_witness:
  "''https://example.com'' \<noteq> []
   \<and> \<not> (readOpenOk (sampleEnv False True pdfResponse) \<and> getOk (sampleEnv False True pdfResponse))
   \<and> fetch (sampleEnv False True pdfResponse) ''https://example.com'' a4 = Resolved pdfResponse
   \<and> ok pdfResponse \<and> blobBody pdfResponse = Inr [37, 80, 68]
   \<and> filter isFetch (trace (handleSubmit (sampleEnv False True pdfResponse) initialUi [sampleEntry] ''https://example.com'' a4))
       = [Fetch ''https://example.com'' a4]
   \<and> error (uiAfter (handleSubmit (sampleEnv False True pdfResponse) initialUi [sampleEntry] ''https://example.com'' a4)) = None
   \<and> last (trace (handleSubmit (sampleEnv False True pdfResponse) initialUi [sampleEntry] ''https://example.com'' a4))
       = Download [37, 80, 68] ''example-com.pdf''"
proof -
  let ?env = "sampleEnv False True pdfResponse"
  have h1: "''https://example.com'' \<noteq> []" by simp
  have h2: "\<not> (readOpenOk ?env \<and> getOk ?env)" by (simp add: sampleEnv_def)
  have h3: "fetch ?env ''https://example.com'' a4 = Resolved pdfResponse" by (simp add: sampleEnv_def)
  have h4: "ok pdfResponse" by (simp add: ok_def pdfResponse_def)
  have h5: "blobBody pdfResponse = Inr [37, 80, 68]" by (simp add: pdfResponse_def)
  have ctor: "newURL ?env = httpURL" by (simp add: sampleEnv_def)
  have name: "generateFilenameFromUrl httpURL ''https://example.com'' = (''example-com'', [])"
    by code_simp
  note main = store_read_failure_proceeds_as_miss
    [OF h1 h2, where s = initialUi and db = "[sampleEntry]" and p = a4
       and r = pdfResponse and b = "[37, 80, 68]"]
  from main have fetched:
    "filter isFetch (trace (handleSubmit ?env initialUi [sampleEntry] ''https://example.com'' a4))
       = [Fetch ''https://example.com'' a4]"
    by blast
  from main h3 h4 h5 have
    "error (uiAfter (handleSubmit ?env initialUi [sampleEntry] ''https://example.com'' a4)) = None
     \<and> last (trace (handleSubmit ?env initialUi [sampleEntry] ''https://example.com'' a4))
       = Download [37, 80, 68] (fst (generateFilenameFromUrl (newURL ?env) ''https://example.com'') @ ''.pdf'')"
    by blast
  then have "error (uiAfter (handleSubmit ?env initialUi [sampleEntry] ''https://example.com'' a4)) = None"
    and "last (trace (handleSubmit ?env initialUi [sampleEntry] ''https://example.com'' a4))
       = Download [37, 80, 68] ''example-com.pdf''"
    by (simp_all add: ctor name)
  note this fetched
  with h1 h2 h3 h4 h5 show ?thesis by blast
qed

section \<open>A response that is not ok\<close>



section \<open>The server-side handler\<close>

lemma parsePageSize_pageSizeString: "parsePageSize (pageSizeString p) = Some p"
  by (cases p) (simp_all add: parsePageSize_def)

lemma requestSchema_clientBody:
  assumes "isU v"
  shows "requestSchema isU (clientBody v p) = Inr (v, p)"
  using assms by (simp add: requestSchema_def clientBody_def parsePageSize_pageSizeString)

lemma requestSchema_invalid_field:
  assumes "\<not> isU v \<or> parsePageSize ps = None"
  shows "\<exists>i rest. requestSchema isU (Object [(''url'', JString v), (''pageSize'', JString ps)]) = Inl (i # rest)"
  using assms by (auto simp: requestSchema_def split: option.splits)

lemma requestSchema_unknown_key:
  assumes "k \<in> set (map fst props)" and "k \<noteq> ''url''" and "k \<noteq> ''pageSize''"
  shows "\<exists>i rest. requestSchema isU (Object props) = Inl (i # rest)"
proof -
  let ?unknown = "filter (\<lambda>k. k \<noteq> ''url'' \<and> k \<noteq> ''pageSize'') (map fst props)"
  from assms have "k \<in> set ?unknown" by simp
  then obtain x xs where unknown: "?unknown = x # xs"
    by (cases ?unknown) auto
  show ?thesis
    by (simp add: requestSchema_def Let_def unknown split: option.splits JsonValue.splits sum.splits)
qed

lemma POST_rejects:
  assumes "requestSchema (isUrl env) (Object props) = Inl (i # rest)"
  shows "POST env (Object props) =
     (\<lparr>statusCode = 400, payload = ErrorJson (''Invalid request: '' @ issueMessage env i)\<rparr>, [])"
  using assms by (simp add: POST_def)

lemma POST_accepts:
  assumes "isUrl env v" and "browserlessToken env = Some token" and "token \<noteq> []"
  shows "POST env (clientBody v p) =
     (if snd (runBrowser (throws env) (browserCalls token v p))
      then \<lparr>statusCode = 200,
             payload = PdfStream (pdfStream env (fst (runBrowser (throws env) (browserCalls token v p))))\<rparr>
      else \<lparr>statusCode = 500, payload = ErrorJson ''Failed to generate PDF''\<rparr>,
      fst (runBrowser (throws env) (browserCalls token v p)))"
proof -
  have "requestSchema (isUrl env) (clientBody v p) = Inr (v, p)"
    using assms(1) by (rule requestSchema_clientBody)
  moreover have "clientBody v p = Object [(''url'', JString v), (''pageSize'', JString (pageSizeString p))]"
    by (simp add: clientBody_def)
  ultimately show ?thesis
    using assms(2,3) by (simp add: POST_def split: prod.splits)
qed

text \<open>
  Whatever a call to the remote browser throws, the handler's answer is status 500 with
  the fixed text; the message of the thrown error is only logged on the server.
\<close>

lemma POST_provider_failure:
  assumes "isUrl env v" and "browserlessToken env = Some token" and "token \<noteq> []"
    and "\<not> snd (runBrowser (throws env) (browserCalls token v p))"
  shows "fst (POST env (clientBody v p)) =
     \<lparr>statusCode = 500, payload = ErrorJson ''Failed to generate PDF''\<rparr>"
  using assms(4) by (simp add: POST_accepts [OF assms(1-3)])

lemma runBrowser_no_throw:
  assumes "list_all (\<lambda>c. \<not> failing c) cs"
  shows "runBrowser failing cs = (cs, True)"
  using assms by (induction cs) simp_all

lemma toUpperCase_custom: "toUpperCase ''custom'' = ''CUSTOM''"
  by (simp add: toUpperCase_def lowerLetters_def upperLetters_def)

lemma toUpperCase_a4: "toUpperCase ''a4'' = ''A4''"
  by (simp add: toUpperCase_def lowerLetters_def upperLetters_def)

lemma browserCalls_custom:
  "browserCalls token v custom =
     [Connect (''wss://production-sfo.browserless.io?token='' @ token), NewPage,
      SetViewport 794 1122, Goto v ''domcontentloaded'', WaitForImages,
      CreatePDFStream ''CUSTOM'' True ''20px'' ''20px'' ''20px'' ''20px'']"
  by (simp add: browserCalls_def Math_round_def toUpperCase_custom)

lemma browserCalls_a4:
  "browserCalls token v a4 =
     [Connect (''wss://production-sfo.browserless.io?token='' @ token), NewPage,
      SetViewport 794 1122, Goto v ''domcontentloaded'', WaitForImages,
      CreatePDFStream ''A4'' True ''20px'' ''20px'' ''20px'' ''20px'']"
  by (simp add: browserCalls_def Math_round_def toUpperCase_a4)

section \<open>Where the input is validated\<close>

lemma handleSubmit_starts_with_lookup:
  assumes "u \<noteq> []"
  shows "hd (trace (handleSubmit env s db u p)) = DbOpen"
proof (cases "fst (getPdfFromCache env db u p)")
  case None
  from handleSubmit_miss_general [OF assms None, of s]
  have "take (Suc (length (snd (getPdfFromCache env db u p)))) (trace (handleSubmit env s db u p))
           = snd (getPdfFromCache env db u p) @ [Fetch u p]"
    by blast
  then have "hd (trace (handleSubmit env s db u p)) = hd (snd (getPdfFromCache env db u p) @ [Fetch u p])"
    by (metis hd_take zero_less_Suc)
  also have "\<dots> = hd (snd (getPdfFromCache env db u p))"
    by (simp add: getPdfFromCache_def initializeDB_def Let_def)
  finally show ?thesis
    by (simp add: getPdfFromCache_trace)
next
  case (Some b)
  then have lookup: "getPdfFromCache env db u p = (Some b, snd (getPdfFromCache env db u p))"
    by (simp add: prod_eq_iff)
  have "snd (getPdfFromCache env db u p) \<noteq> []"
    by (simp add: getPdfFromCache_def initializeDB_def Let_def)
  then show ?thesis
    by (simp add: handleSubmit_hit [OF assms lookup] getPdfFromCache_trace)
qed

text \<open>
  C2, as the code has it. \<^verbatim>\<open>handleSubmit\<close> does not look at the syntax of the url: for
  \<^verbatim>\<open>not-a-url\<close> (which the URL constructor rejects) and page size \<^verbatim>\<open>a4\<close> it opens the
  database, reads the store and sends the request to \<^verbatim>\<open>/api/pdf\<close>.
\<close>

theorem invalid_url_reaches_store_and_network_counterexample:
  "httpURL ''not-a-url'' = Inl ''Invalid URL''
   \<and> trace (handleSubmit (sampleEnv True True badRequestResponse) initialUi [] ''not-a-url'' a4)
       = [DbOpen, StoreGet ''not-a-url|a4'', Fetch ''not-a-url'' a4]"
proof -
  let ?env = "sampleEnv True True badRequestResponse"
  have invalid: "httpURL ''not-a-url'' = Inl ''Invalid URL''"
    by (simp add: httpURL_def startsWith_def)
  have u: "''not-a-url'' \<noteq> []" by simp
  have lookup: "getPdfFromCache ?env [] ''not-a-url'' a4 = (None, [DbOpen, StoreGet ''not-a-url|a4''])"
    by (simp add: getPdfFromCache_def initializeDB_def sampleEnv_def idb_get_def generateCacheKey_def)
  have f: "fetch ?env ''not-a-url'' a4 = Resolved badRequestResponse"
    by (simp add: sampleEnv_def)
  have no: "\<not> ok badRequestResponse"
    by (simp add: ok_def badRequestResponse_def)
  have "trace (handleSubmit ?env initialUi [] ''not-a-url'' a4)
       = [DbOpen, StoreGet ''not-a-url|a4'', Fetch ''not-a-url'' a4]"
    by (simp add: handleSubmit_not_ok [OF u lookup f no])
  with invalid show ?thesis by simp
qed

text \<open>
  C2, amended. The only input \<^verbatim>\<open>handleSubmit\<close> turns away before any interaction with the
  store or the network is the empty url, and it does so silently (nothing changes, no error
  is shown). For every non-empty url, valid or not, its first call opens the database, and
  when the lookup gives nothing it sends the request to \<^verbatim>\<open>/api/pdf\<close>. The validation is the
  server's: for a body whose \<^verbatim>\<open>url\<close> fails the url test or whose \<^verbatim>\<open>pageSize\<close> is not one
  of \<^verbatim>\<open>a4\<close>, \<^verbatim>\<open>letter\<close>, \<^verbatim>\<open>custom\<close>, the handler answers with status 400 and a message
  starting \<^verbatim>\<open>Invalid request: \<close> without making any call to the remote browser; the client
  shows the message of such an answer as its error. (In the client the page size has the
  type \<^verbatim>\<open>PageSize\<close>, which has no other value.)
\<close>

theorem input_is_validated_by_the_server:
  "handleSubmit env s db [] p = \<lparr>uiAfter = s, storeAfter = db, trace = []\<rparr>
   \<and> (u \<noteq> [] \<longrightarrow> hd (trace (handleSubmit env s db u p)) = DbOpen)
   \<and> (u \<noteq> [] \<and> fst (getPdfFromCache env db u p) = None \<longrightarrow>
         filter isFetch (trace (handleSubmit env s db u p)) = [Fetch u p])
   \<and> (\<not> isUrl senv v \<or> parsePageSize ps = None \<longrightarrow>
         (\<exists>m. POST senv (Object [(''url'', JString v), (''pageSize'', JString ps)]) =
                (\<lparr>statusCode = 400, payload = ErrorJson (''Invalid request: '' @ m)\<rparr>, [])))
   \<and> (u \<noteq> [] \<and> fst (getPdfFromCache env db u p) = None \<and> fetch env u p = Resolved r
        \<and> status r = 400 \<and> jsonBody r = Inr (Some e) \<and> e \<noteq> [] \<longrightarrow>
         error (uiAfter (handleSubmit env s db u p)) = Some e)"
proof -
  have empty: "handleSubmit env s db [] p = \<lparr>uiAfter = s, storeAfter = db, trace = []\<rparr>"
    by (rule handleSubmit_empty_url)
  have first: "u \<noteq> [] \<longrightarrow> hd (trace (handleSubmit env s db u p)) = DbOpen"
    by (simp add: handleSubmit_starts_with_lookup)
  have sent: "u \<noteq> [] \<and> fst (getPdfFromCache env db u p) = None \<longrightarrow>
         filter isFetch (trace (handleSubmit env s db u p)) = [Fetch u p]"
    using handleSubmit_miss_general [of u env db p s] by blast
  have server: "\<exists>m. POST senv (Object [(''url'', JString v), (''pageSize'', JString ps)]) =
                (\<lparr>statusCode = 400, payload = ErrorJson (''Invalid request: '' @ m)\<rparr>, [])"
    if "\<not> isUrl senv v \<or> parsePageSize ps = None"
  proof -
    from that requestSchema_invalid_field [of "isUrl senv" v ps]
    obtain i rest where
      "requestSchema (isUrl senv) (Object [(''url'', JString v), (''pageSize'', JString ps)]) = Inl (i # rest)"
      by blast
    then have "POST senv (Object [(''url'', JString v), (''pageSize'', JString ps)]) =
        (\<lparr>statusCode = 400, payload = ErrorJson (''Invalid request: '' @ issueMessage senv i)\<rparr>, [])"
      by (rule POST_rejects)
    then show ?thesis by blast
  qed
  have shown: "error (uiAfter (handleSubmit env s db u p)) = Some e"
    if h: "u \<noteq> [] \<and> fst (getPdfFromCache env db u p) = None \<and> fetch env u p = Resolved r
        \<and> status r = 400 \<and> jsonBody r = Inr (Some e) \<and> e \<noteq> []"
  proof -
    from h have no: "\<not> ok r" by (simp add: ok_def)
    from h have u: "u \<noteq> []" and miss: "fst (getPdfFromCache env db u p) = None"
      and f: "fetch env u p = Resolved r" and j: "jsonBody r = Inr (Some e)" and e: "e \<noteq> []"
      by simp_all
    show ?thesis
      by (simp add: handleSubmit_not_ok [OF u lookup_pair [OF miss] f no] catchError_def j e)
  qed
  from empty first sent server shown show ?thesis by blast
qed

text \<open>The url \<^verbatim>\<open>not-a-url\<close> on the client, and in the body the server receives.\<close>

theorem input_is_validated_by_the_server_witness:
  "''not-a-url'' \<noteq> []
   \<and> fst (getPdfFromCache (sampleEnv True True badRequestResponse) [] ''not-a-url'' a4) = None
   \<and> \<not> isUrl (sampleServer (Some ''token'')) ''not-a-url''
   \<and> fetch (sampleEnv True True badRequestResponse) ''not-a-url'' a4 = Resolved badRequestResponse
   \<and> status badRequestResponse = 400
   \<and> jsonBody badRequestResponse = Inr (Some ''Invalid request: Invalid url'')
   \<and> ''Invalid request: Invalid url'' \<noteq> []
   \<and> hd (trace (handleSubmit (sampleEnv True True badRequestResponse) initialUi [] ''not-a-url'' a4)) = DbOpen
   \<and> filter isFetch (trace (handleSubmit (sampleEnv True True badRequestResponse) initialUi [] ''not-a-url'' a4))
       = [Fetch ''not-a-url'' a4]
   \<and> error (uiAfter (handleSubmit (sampleEnv True True badRequestResponse) initialUi [] ''not-a-url'' a4))
       = Some ''Invalid request: Invalid url''
   \<and> (\<exists>m. POST (sampleServer (Some ''token'')) (Object [(''url'', JString ''not-a-url''), (''pageSize'', JString ''a4'')])
          = (\<lparr>statusCode = 400, payload = ErrorJson (''Invalid request: '' @ m)\<rparr>, []))"
proof -
  let ?env = "sampleEnv True True badRequestResponse"
  let ?senv = "sampleServer (Some ''token'')"
  have h1: "''not-a-url'' \<noteq> []" by simp
  have h2: "fst (getPdfFromCache ?env [] ''not-a-url'' a4) = None"
    by (rule getPdfFromCache_empty_store)
  have h3: "\<not> isUrl ?senv ''not-a-url''"
    by (simp add: sampleServer_def httpURL_def startsWith_def)
  have h4: "fetch ?env ''not-a-url'' a4 = Resolved badRequestResponse"
    by (simp add: sampleEnv_def)
  have h5: "status badRequestResponse = 400"
    and h6: "jsonBody badRequestResponse = Inr (Some ''Invalid request: Invalid url'')"
    by (simp_all add: badRequestResponse_def)
  have h7: "''Invalid request: Invalid url'' \<noteq> []" by simp
  note main = input_is_validated_by_the_server
    [where env = ?env and s = initialUi and db = "[]" and u = "''not-a-url''" and p = a4
       and senv = ?senv and v = "''not-a-url''" and ps = "''a4''"
       and r = badRequestResponse and e = "''Invalid request: Invalid url''"]
  from main h1 have c1: "hd (trace (handleSubmit ?env initialUi [] ''not-a-url'' a4)) = DbOpen"
    by blast
  from main h1 h2 have c2: "filter isFetch (trace (handleSubmit ?env initialUi [] ''not-a-url'' a4))
       = [Fetch ''not-a-url'' a4]"
    by blast
  from main h1 h2 h4 h5 h6 h7
  have c3: "error (uiAfter (handleSubmit ?env initialUi [] ''not-a-url'' a4))
       = Some ''Invalid request: Invalid url''"
    by blast
  from main h3
  have c4: "\<exists>m. POST ?senv (Object [(''url'', JString ''not-a-url''), (''pageSize'', JString ''a4'')])
          = (\<lparr>statusCode = 400, payload = ErrorJson (''Invalid request: '' @ m)\<rparr>, [])"
    by blast
  from h1 h2 h3 h4 h5 h6 h7 c1 c2 c3 c4 show ?thesis by blast
qed

section \<open>The page size custom on the server\<close>

text \<open>
  C10. For \<^verbatim>\<open>custom\<close> the table \<^verbatim>\<open>pageSizes\<close> holds the dimensions of \<^verbatim>\<open>a4\<close>,
  8.27 by 11.69 inches, so the handler sets the same viewport (794 by 1122 pixels) as for
  \<^verbatim>\<open>a4\<close>; the paper format it passes to \<^verbatim>\<open>createPDFStream\<close> is the upper-cased page
  size, \<^verbatim>\<open>CUSTOM\<close>. The calls made for a valid request are a prefix of this list (all of
  it when none throws) and depend on the token, the url and the page size only. A body
  that carries any other key, such as a width or a height, is rejected by the strict
  schema with status 400 before any call to the remote browser, so no dimensions of the
  caller are ever applied.
\<close>

theorem custom_page_size_uses_a4_dimensions:
  "pageSizes custom = pageSizes a4
   \<and> pageSizes custom = \<lparr>width = 8.27, height = 11.69\<rparr>
   \<and> browserCalls token v custom =
       [Connect (''wss://production-sfo.browserless.io?token='' @ token), NewPage,
        SetViewport 794 1122, Goto v ''domcontentloaded'', WaitForImages,
        CreatePDFStream ''CUSTOM'' True ''20px'' ''20px'' ''20px'' ''20px'']
   \<and> browserCalls token v a4 =
       [Connect (''wss://production-sfo.browserless.io?token='' @ token), NewPage,
        SetViewport 794 1122, Goto v ''domcontentloaded'', WaitForImages,
        CreatePDFStream ''A4'' True ''20px'' ''20px'' ''20px'' ''20px'']
   \<and> (isUrl env v \<and> browserlessToken env = Some token \<and> token \<noteq> [] \<longrightarrow>
         snd (POST env (clientBody v custom)) = fst (runBrowser (throws env) (browserCalls token v custom)))
   \<and> (isUrl env v \<and> browserlessToken env = Some token \<and> token \<noteq> []
        \<and> list_all (\<lambda>c. \<not> throws env c) (browserCalls token v custom) \<longrightarrow>
         snd (POST env (clientBody v custom)) = browserCalls token v custom)
   \<and> (k \<in> set (map fst props) \<and> k \<noteq> ''url'' \<and> k \<noteq> ''pageSize'' \<longrightarrow>
         (\<exists>m. POST env (Object props) =
                (\<lparr>statusCode = 400, payload = ErrorJson (''Invalid request: '' @ m)\<rparr>, [])))"
proof -
  have table: "pageSizes custom = pageSizes a4 \<and> pageSizes custom = \<lparr>width = 8.27, height = 11.69\<rparr>"
    by simp
  have made: "snd (POST env (clientBody v custom)) = fst (runBrowser (throws env) (browserCalls token v custom))"
    if "isUrl env v \<and> browserlessToken env = Some token \<and> token \<noteq> []"
    using that by (simp add: POST_accepts)
  have complete: "snd (POST env (clientBody v custom)) = browserCalls token v custom"
    if "isUrl env v \<and> browserlessToken env = Some token \<and> token \<noteq> []
        \<and> list_all (\<lambda>c. \<not> throws env c) (browserCalls token v custom)"
    using that made by (simp add: runBrowser_no_throw)
  have strict: "\<exists>m. POST env (Object props) =
                (\<lparr>statusCode = 400, payload = ErrorJson (''Invalid request: '' @ m)\<rparr>, [])"
    if "k \<in> set (map fst props) \<and> k \<noteq> ''url'' \<and> k \<noteq> ''pageSize''"
  proof -
    from that requestSchema_unknown_key [of k props "isUrl env"]
    obtain i rest where "requestSchema (isUrl env) (Object props) = Inl (i # rest)"
      by blast
    then have "POST env (Object props) =
        (\<lparr>statusCode = 400, payload = ErrorJson (''Invalid request: '' @ issueMessage env i)\<rparr>, [])"
      by (rule POST_rejects)
    then show ?thesis by blast
  qed
  from table browserCalls_custom [of token v] browserCalls_a4 [of token v] made complete strict
  show ?thesis by blast
qed

text \<open>A request for \<^verbatim>\<open>custom\<close>, and one that also carries a width.\<close>

theorem custom_page_size_witness:
  "isUrl (sampleServer (Some ''token'')) ''https://example.com''
   \<and> browserlessToken (sampleServer (Some ''token'')) = Some ''token'' \<and> ''token'' \<noteq> []
   \<and> list_all (\<lambda>c. \<not> throws (sampleServer (Some ''token'')) c) (browserCalls ''token'' ''https://example.com'' custom)
   \<and> ''width'' \<in> set (map fst [(''url'', JString ''https://example.com''), (''pageSize'', JString ''custom''), (''width'', JOther)])
   \<and> ''width'' \<noteq> ''url'' \<and> ''width'' \<noteq> ''pageSize''
   \<and> snd (POST (sampleServer (Some ''token'')) (clientBody ''https://example.com'' custom)) =
       [Connect ''wss://production-sfo.browserless.io?token=token'', NewPage,
        SetViewport 794 1122, Goto ''https://example.com'' ''domcontentloaded'', WaitForImages,
        CreatePDFStream ''CUSTOM'' True ''20px'' ''20px'' ''20px'' ''20px'']
   \<and> (\<exists>m. POST (sampleServer (Some ''token''))
            (Object [(''url'', JString ''https://example.com''), (''pageSize'', JString ''custom''), (''width'', JOther)])
          = (\<lparr>statusCode = 400, payload = ErrorJson (''Invalid request: '' @ m)\<rparr>, []))"
proof -
  let ?senv = "sampleServer (Some ''token'')"
  let ?props = "[(''url'', JString ''https://example.com''), (''pageSize'', JString ''custom''), (''width'', JOther)]"
  have h1: "isUrl ?senv ''https://example.com''"
    by (simp add: sampleServer_def httpURL_def startsWith_def isHostChar_def isPathChar_def
        lowerLetters_def upperLetters_def)
  have h2: "browserlessToken ?senv = Some ''token''" by (simp add: sampleServer_def)
  have h3: "''token'' \<noteq> []" by simp
  have h4: "list_all (\<lambda>c. \<not> throws ?senv c) (browserCalls ''token'' ''https://example.com'' custom)"
    by (simp add: sampleServer_def list_all_iff)
  have h5: "''width'' \<in> set (map fst ?props)" by simp
  have h6: "''width'' \<noteq> ''url''" and h7: "''width'' \<noteq> ''pageSize''" by simp_all
  note main = custom_page_size_uses_a4_dimensions
    [where env = ?senv and v = "''https://example.com''" and token = "''token''"
       and k = "''width''" and props = ?props]
  from main h1 h2 h3 h4
  have "snd (POST ?senv (clientBody ''https://example.com'' custom)) =
       browserCalls ''token'' ''https://example.com'' custom"
    by blast
  also from main have "\<dots> =
       [Connect (''wss://production-sfo.browserless.io?token='' @ ''token''), NewPage,
        SetViewport 794 1122, Goto ''https://example.com'' ''domcontentloaded'', WaitForImages,
        CreatePDFStream ''CUSTOM'' True ''20px'' ''20px'' ''20px'' ''20px'']"
    by blast
  finally have c1: "snd (POST ?senv (clientBody ''https://example.com'' custom)) =
       [Connect ''wss://production-sfo.browserless.io?token=token'', NewPage,
        SetViewport 794 1122, Goto ''https://example.com'' ''domcontentloaded'', WaitForImages,
        CreatePDFStream ''CUSTOM'' True ''20px'' ''20px'' ''20px'' ''20px'']"
    by simp
  from main h5 h6 h7
  have c2: "\<exists>m. POST ?senv (Object ?props)
          = (\<lparr>statusCode = 400, payload = ErrorJson (''Invalid request: '' @ m)\<rparr>, [])"
    by blast
  from h1 h2 h3 h4 h5 h6 h7 c1 c2 show ?thesis by blast
qed

section \<open>The file name of the download\<close>





















end
